theory Spec2Isabelle
  imports Main "HOL-Library.Sublist" "HOL-Library.Word"
begin

section \<open>JavaScript values used by the proxy\<close>

text \<open>
  Parsed JSON as the proxy sees it. \<open>undefined\<close> is not a JSON value: a missing property
  is \<open>None\<close> of \<open>json option\<close>. Numbers are restricted to integers (status codes, pixel
  coordinates); floating point is not modelled.
\<close>

datatype json =
    JNull
  | JBool bool
  | JNum int
  | JStr string
  | JArr "json list"
  | JObj "(string \<times> json) list"

type_synonym byte = "8 word"

text \<open>JavaScript truthiness of a value, and of a possibly undefined one.\<close>

fun truthy :: "json \<Rightarrow> bool" where
  "truthy JNull = False"
| "truthy (JBool b) = b"
| "truthy (JNum n) = (n \<noteq> 0)"
| "truthy (JStr s) = (s \<noteq> [])"
| "truthy (JArr xs) = True"
| "truthy (JObj kvs) = True"

fun truthy_str :: "string option \<Rightarrow> bool" where
  "truthy_str None = False"
| "truthy_str (Some s) = (s \<noteq> [])"

text \<open>
  \<open>v?.k\<close>: optional chaining gives \<open>undefined\<close> on \<open>undefined\<close> and \<open>null\<close>; a
  primitive or an array has none of the keys read here (\<open>error\<close>, \<open>message\<close>,
  \<open>code\<close>); in an object parsed from JSON the last binding of a repeated key wins.
\<close>

fun get_prop :: "json option \<Rightarrow> string \<Rightarrow> json option" where
  "get_prop (Some (JObj kvs)) k = map_of (rev kvs) k"
| "get_prop v k = None"

text \<open>\<open>a || b\<close>: the left operand when it is truthy, the right one otherwise.\<close>

fun or_else :: "json option \<Rightarrow> json option \<Rightarrow> json option" where
  "or_else (Some v) b = (if truthy v then Some v else b)"
| "or_else None b = b"

fun or_lit :: "json option \<Rightarrow> json \<Rightarrow> json" where
  "or_lit (Some v) d = (if truthy v then v else d)"
| "or_lit None d = d"

text \<open>\<open>s.includes(sep)\<close>: \<open>sep\<close> occurs somewhere in \<open>s\<close>.\<close>

fun includes_str :: "string \<Rightarrow> string \<Rightarrow> bool" where
  "includes_str [] sep = (sep = [])"
| "includes_str (c # cs) sep = (prefix sep (c # cs) \<or> includes_str cs sep)"

text \<open>
  \<open>s.split(sep)\<close> for a string separator: the pieces between the occurrences of
  \<open>sep\<close>, found left to right without overlap. \<open>acc\<close> holds the current piece,
  reversed. An empty separator splits into single characters.
\<close>

function split_from :: "string \<Rightarrow> string \<Rightarrow> string \<Rightarrow> string list" where
  "split_from sep acc [] = [rev acc]"
| "split_from sep acc (c # cs) =
     (if sep \<noteq> [] \<and> prefix sep (c # cs)
      then rev acc # split_from sep [] (drop (length sep) (c # cs))
      else split_from sep (c # acc) cs)"
  by pat_completeness auto
termination
  by (relation "measure (\<lambda>(sep, acc, s). length s)") (auto simp: neq_Nil_conv)

definition split_str :: "string \<Rightarrow> string \<Rightarrow> string list" where
  "split_str s sep = (if sep = [] then map (\<lambda>c. [c]) s else split_from sep [] s)"

text \<open>\<open>xs[1]\<close>: \<open>undefined\<close> when the array has fewer than two elements.\<close>

fun index1 :: "'a list \<Rightarrow> 'a option" where
  "index1 (x # y # ys) = Some y"
| "index1 xs = None"

section \<open>The detection proxy (server.js)\<close>

subsection \<open>Startup\<close>

text \<open>
  \<open>process.env\<close> after \<open>dotenv\<close> has loaded the file: a map from names to strings.
  The script reads the endpoint and the key once, into constants; it exits with code 1
  when either is undefined or empty (\<open>!AZURE_ENDPOINT || !AZURE_KEY\<close>), and only
  otherwise goes on to register the routes and to listen.
\<close>

type_synonym env = "string \<rightharpoonup> string"

record config =
  AZURE_ENDPOINT :: string
  AZURE_KEY :: string
  PORT :: string

datatype process = Exited nat | Listening config

definition startup :: "env \<Rightarrow> process" where
  "startup e =
     (case (e ''AZURE_FACE_ENDPOINT'', e ''AZURE_FACE_KEY'') of
        (Some ep, Some k) \<Rightarrow>
          if ep = [] \<or> k = [] then Exited 1
          else Listening \<lparr>AZURE_ENDPOINT = ep, AZURE_KEY = k,
                 PORT = (case e ''PORT'' of None \<Rightarrow> ''3001'' | Some p \<Rightarrow> if p = [] then ''3001'' else p)\<rparr>
      | _ \<Rightarrow> Exited 1)"

subsection \<open>The outbound request and its outcome\<close>

datatype payload = JsonData json | BufferData "byte list"

datatype limit = Default | Infinity

record request_config =
  req_method :: string
  url :: string
  headers :: "(string \<times> string) list"
  params :: "(string \<times> string) list"
  data :: payload
  maxBodyLength :: limit
  maxContentLength :: limit

record axios_response =
  resp_status :: nat
  resp_data :: json

text \<open>
  What the \<open>catch\<close> block reads of a thrown value: its message, and the response when
  the external service answered with an error status. A \<open>TypeError\<close> raised inside the
  handler has no response.
\<close>

record js_error =
  message :: string
  response :: "axios_response option"

datatype axios_result = Resolved json | Rejected js_error

record reply =
  http_status :: nat
  http_body :: json

record detect_body =
  imageUrl :: "string option"
  imageData :: "string option"

subsection \<open>POST /api/detect-faces\<close>

text \<open>\<open>AZURE_ENDPOINT.replace(/\/$/, '')\<close>: one trailing slash is removed.\<close>

definition strip_trailing_slash :: "string \<Rightarrow> string" where
  "strip_trailing_slash s = (if s \<noteq> [] \<and> last s = CHR ''/'' then butlast s else s)"

definition azureUrl :: "config \<Rightarrow> string" where
  "azureUrl cfg = strip_trailing_slash (AZURE_ENDPOINT cfg) @ ''/face/v1.0/detect''"

definition detect_params :: "(string \<times> string) list" where
  "detect_params =
     [(''returnFaceId'', ''false''),
      (''returnFaceLandmarks'', ''true''),
      (''returnRecognitionModel'', ''false'')]"

definition url_request :: "config \<Rightarrow> string \<Rightarrow> request_config" where
  "url_request cfg u =
     \<lparr>req_method = ''POST'', url = azureUrl cfg,
      headers = [(''Content-Type'', ''application/json''),
                 (''Ocp-Apim-Subscription-Key'', AZURE_KEY cfg)],
      params = detect_params,
      data = JsonData (JObj [(''url'', JStr u)]),
      maxBodyLength = Default, maxContentLength = Default\<rparr>"

definition buffer_request :: "config \<Rightarrow> byte list \<Rightarrow> request_config" where
  "buffer_request cfg imageBuffer =
     \<lparr>req_method = ''POST'', url = azureUrl cfg,
      headers = [(''Content-Type'', ''application/octet-stream''),
                 (''Ocp-Apim-Subscription-Key'', AZURE_KEY cfg)],
      params = detect_params,
      data = BufferData imageBuffer,
      maxBodyLength = Infinity, maxContentLength = Infinity\<rparr>"

text \<open>The five suggestions of the \<open>catch\<close> block, chosen by \<open>errorCode === ...\<close>.\<close>

definition suggestion_for :: "json \<Rightarrow> string" where
  "suggestion_for errorCode =
     (if errorCode = JStr ''InvalidImageUrl''
        then ''The image URL is invalid or inaccessible. Please check the URL.''
      else if errorCode = JStr ''InvalidImageFormat''
        then ''The image format is not supported. Use JPG, PNG, GIF, or BMP.''
      else if errorCode = JStr ''InvalidImageSize''
        then ''The image size is invalid. Image must be between 1KB and 6MB.''
      else if errorCode = JStr ''InvalidRequest''
        then ''The request format is invalid. This might be an API version issue.''
      else if errorCode = JStr ''Unauthorized''
        then ''Invalid API key. Please check your Azure subscription key.''
      else [])"

text \<open>
  The \<open>catch\<close> block. \<open>details: error.response?.data\<close> is left out of the JSON body
  when it is \<open>undefined\<close>, as \<open>JSON.stringify\<close> does.
\<close>

definition catch_reply :: "js_error \<Rightarrow> reply" where
  "catch_reply e =
     (let details = map_option resp_data (response e);
          errorMessage =
            or_lit
              (or_else (get_prop (get_prop details ''error'') ''message'')
                (or_else (get_prop details ''message'') (Some (JStr (message e)))))
              (JStr ''Face detection failed'');
          errorCode = or_lit (get_prop (get_prop details ''error'') ''code'') (JStr ''Unknown'');
          suggestion = suggestion_for errorCode
      in \<lparr>http_status =
              (case response e of
                 None \<Rightarrow> 500
               | Some r \<Rightarrow> if resp_status r = 0 then 500 else resp_status r),
            http_body =
              JObj ([(''error'', errorMessage), (''code'', errorCode),
                     (''suggestion'', JStr suggestion)]
                    @ (case details of None \<Rightarrow> [] | Some d \<Rightarrow> [(''details'', d)]))\<rparr>)"

text \<open>
  A \<open>TypeError\<close> raised by the handler's own code (reading a property of \<open>null\<close> or
  \<open>undefined\<close>); the text is the engine's and plays no part below.
\<close>

definition type_error :: "string \<Rightarrow> js_error" where
  "type_error what = \<lparr>message = ''Cannot read properties of '' @ what, response = None\<rparr>"

text \<open>
  \<open>await axios(requestConfig)\<close> and what follows it. The external service is the
  function \<open>azure\<close>; the second component lists the requests sent to it.
  \<open>response.data.length\<close> is read for the log line before the relay and throws on
  \<open>null\<close>; \<open>res.json(response.data)\<close> answers with status 200.
\<close>

definition send :: "(request_config \<Rightarrow> axios_result) \<Rightarrow> request_config \<Rightarrow> reply \<times> request_config list" where
  "send azure requestConfig =
     (case azure requestConfig of
        Resolved d \<Rightarrow>
          (if d = JNull then catch_reply (type_error ''null'')
           else \<lparr>http_status = 200, http_body = d\<rparr>,
           [requestConfig])
      | Rejected e \<Rightarrow> (catch_reply e, [requestConfig]))"

definition bad_request :: "string \<Rightarrow> reply" where
  "bad_request msg = \<lparr>http_status = 400, http_body = JObj [(''error'', JStr msg)]\<rparr>"

text \<open>
  The data-URL prefix is removed when the text contains \<open>base64,\<close>:
  \<open>imageData.split('base64,')[1]\<close>.
\<close>

definition base64Data :: "string \<Rightarrow> string option" where
  "base64Data d =
     (if includes_str d ''base64,'' then index1 (split_str d ''base64,'') else Some d)"

text \<open>
  The handler. \<open>Buffer.from(_, 'base64')\<close> belongs to the platform and is the parameter
  \<open>dec\<close>; the configuration is the pair of constants read at startup. The body is
  \<open>{ imageUrl?: string, imageData?: string }\<close>. The three \<open>None\<close> branches stand for
  reading a property of \<open>undefined\<close>, which would throw into the \<open>catch\<close> block; the
  tests before them keep the handler from ever getting there.
\<close>

definition detect_faces ::
  "(string \<Rightarrow> byte list) \<Rightarrow> config \<Rightarrow> (request_config \<Rightarrow> axios_result) \<Rightarrow> detect_body
     \<Rightarrow> reply \<times> request_config list" where
  "detect_faces dec cfg azure b =
     (if \<not> truthy_str (imageUrl b) \<and> \<not> truthy_str (imageData b)
      then (bad_request ''Either imageUrl or imageData is required'', [])
      else if truthy_str (imageUrl b)
      then (case imageUrl b of
              Some u \<Rightarrow> send azure (url_request cfg u)
            | None \<Rightarrow> (catch_reply (type_error ''undefined''), []))
      else (case imageData b of
              None \<Rightarrow> (catch_reply (type_error ''undefined''), [])
            | Some d \<Rightarrow>
                (case base64Data d of
                   None \<Rightarrow> (catch_reply (type_error ''undefined''), [])
                 | Some s \<Rightarrow>
                     let imageBuffer = dec s in
                     if length imageBuffer > 6 * 1024 * 1024
                     then (bad_request ''Image too large. Maximum size is 6MB.'', [])
                     else if length imageBuffer < 1024
                     then (bad_request ''Image too small or corrupted.'', [])
                     else send azure (buffer_request cfg imageBuffer))))"

text \<open>
  The process as a whole: requests are answered only by a process that got past the
  startup check, and then with the constants read there.
\<close>

definition serve ::
  "(string \<Rightarrow> byte list) \<Rightarrow> env \<Rightarrow> (request_config \<Rightarrow> axios_result) \<Rightarrow> detect_body list
     \<Rightarrow> process \<times> (reply \<times> request_config list) list" where
  "serve dec e azure reqs =
     (case startup e of
        Exited c \<Rightarrow> (Exited c, [])
      | Listening cfg \<Rightarrow> (Listening cfg, map (detect_faces dec cfg azure) reqs))"

section \<open>The capture and render client (App.jsx, both variants)\<close>

subsection \<open>Detected faces\<close>

record rect =
  rect_left :: int
  rect_top :: int
  rect_width :: int
  rect_height :: int

type_synonym point = "int \<times> int"

text \<open>Of the landmarks the service returns, the five the client reads.\<close>

record landmarks =
  pupilLeft :: "point option"
  pupilRight :: "point option"
  noseTip :: "point option"
  mouthLeft :: "point option"
  mouthRight :: "point option"

record face =
  faceRectangle :: "rect option"
  faceLandmarks :: "landmarks option"

subsection \<open>Camera, video element and capture canvas\<close>

type_synonym track_id = nat

datatype ready_state = Live | Ended

text \<open>A \<open>MediaStream\<close> is what \<open>getTracks()\<close> returns of it.\<close>

type_synonym media_stream = "track_id list"

type_synonym pixel = "32 word"

text \<open>
  The video element: its source, the size of the current frame (0 before any frame is
  available) and the frame itself, as rows of pixels.
\<close>

record video =
  srcObject :: "media_stream option"
  videoWidth :: nat
  videoHeight :: nat
  frame :: "pixel list list"

text \<open>
  The hidden capture canvas as a bitmap: rows of pixels, \<open>None\<close> where nothing was
  drawn. Of the 2D context's state the code touches only the scale factors of the current
  transformation and, in the second variant, the \<open>save\<close>/\<open>restore\<close> stack.
\<close>

record canvas =
  cwidth :: nat
  cheight :: nat
  bitmap :: "pixel option list list"
  scale_x :: int
  scale_y :: int
  saved :: "(int \<times> int) list"

text \<open>Assigning \<open>canvas.width\<close> or \<open>canvas.height\<close> clears the bitmap and resets the context.\<close>

definition set_width :: "nat \<Rightarrow> canvas \<Rightarrow> canvas" where
  "set_width n c =
     c\<lparr>cwidth := n, bitmap := replicate (cheight c) (replicate n None),
       scale_x := 1, scale_y := 1, saved := []\<rparr>"

definition set_height :: "nat \<Rightarrow> canvas \<Rightarrow> canvas" where
  "set_height n c =
     c\<lparr>cheight := n, bitmap := replicate n (replicate (cwidth c) None),
       scale_x := 1, scale_y := 1, saved := []\<rparr>"

definition ctx_scale :: "int \<Rightarrow> int \<Rightarrow> canvas \<Rightarrow> canvas" where
  "ctx_scale sx sy c = c\<lparr>scale_x := scale_x c * sx, scale_y := scale_y c * sy\<rparr>"

definition ctx_save :: "canvas \<Rightarrow> canvas" where
  "ctx_save c = c\<lparr>saved := (scale_x c, scale_y c) # saved c\<rparr>"

definition ctx_restore :: "canvas \<Rightarrow> canvas" where
  "ctx_restore c =
     (case saved c of
        [] \<Rightarrow> c
      | (sx, sy) # rest \<Rightarrow> c\<lparr>scale_x := sx, scale_y := sy, saved := rest\<rparr>)"

text \<open>
  \<open>ctx.drawImage(video, dx, dy, dw, dh)\<close> under a scaling transformation, by sampling
  at pixel centres. Along one axis, scale factor \<open>a\<close>, destination interval
  \<open>[d, d + dw)\<close> in user space, \<open>n\<close> source pixels: the centre \<open>X + 1/2\<close> of device
  pixel \<open>X\<close> lies at \<open>(X + 1/2) / a\<close> in user space, which is source coordinate
  \<open>((X + 1/2) / a - d) * n / dw\<close>; \<open>source_index\<close> is its floor. The pixel is painted
  when the index falls inside the source. A video without a frame paints nothing. Both
  calls in the code draw the frame at its own size, where sampling is exact; smoothing
  of a resized image is not modelled.
\<close>

definition source_index :: "int \<Rightarrow> int \<Rightarrow> int \<Rightarrow> nat \<Rightarrow> nat \<Rightarrow> int" where
  "source_index a d dw n X = ((2 * int X + 1 - 2 * d * a) * int n) div (2 * dw * a)"

definition drawImage :: "video \<Rightarrow> int \<Rightarrow> int \<Rightarrow> int \<Rightarrow> int \<Rightarrow> canvas \<Rightarrow> canvas" where
  "drawImage v dx dy dw dh c =
     (if videoWidth v = 0 \<or> videoHeight v = 0 \<or> dw = 0 \<or> dh = 0
         \<or> scale_x c = 0 \<or> scale_y c = 0
      then c
      else c\<lparr>bitmap :=
             map (\<lambda>Y. map (\<lambda>X.
                    let i = source_index (scale_x c) dx dw (videoWidth v) X;
                        j = source_index (scale_y c) dy dh (videoHeight v) Y
                    in if 0 \<le> i \<and> i < int (videoWidth v) \<and> 0 \<le> j \<and> j < int (videoHeight v)
                       then Some (frame v ! nat j ! nat i)
                       else bitmap c ! Y ! X)
                  [0..<cwidth c])
               [0..<cheight c]\<rparr>)"

subsection \<open>Component state and the world outside it\<close>

text \<open>
  Text that comes from the user or from the browser (the URL typed in, a data URL) is a
  JavaScript string: a sequence of UTF-16 code units. The notices the component writes
  itself are plain literals.
\<close>

type_synonym js_string = "16 word list"

text \<open>
  The React state of the component (\<open>useState\<close>), shared by both variants. A render
  takes a snapshot of it, and every function the render creates reads that snapshot;
  the setters write to the state the next render will see.
\<close>

record app_state =
  imageUrl_state :: js_string
  imagePreview :: "js_string option"
  faces :: "face list"
  loading :: bool
  error :: "string option"
  cameraActive :: bool
  cameraStream :: "media_stream option"

definition initial_state :: app_state where
  "initial_state =
     \<lparr>imageUrl_state = [], imagePreview = None, faces = [], loading = False,
      error = None, cameraActive = False, cameraStream = None\<rparr>"

text \<open>
  What lives outside the state: the ready state of every device track, the video element
  behind \<open>videoRef\<close> (\<open>None\<close> while it is not mounted) and the capture canvas.
\<close>

record world =
  tracks :: "track_id \<Rightarrow> ready_state"
  videoRef :: "video option"
  captureCanvas :: canvas

text \<open>
  The body the client posts: the object \<open>{ imageUrl }\<close> or the object \<open>{ imageData }\<close>.
\<close>

datatype detect_request = ImageUrl js_string | ImageData js_string

text \<open>What \<open>axios.post('/api/detect-faces', ...)\<close> gives the client.\<close>

record post_error =
  response_error :: "string option"
  error_message :: string

datatype post_result = PostOk "face list" | PostFailed post_error

text \<open>
  The platform: the proxy behind \<open>axios.post\<close>, the JPEG encoder behind
  \<open>canvas.toDataURL\<close>, and the frames the camera delivers to a video element.
\<close>

record platform =
  post :: "detect_request \<Rightarrow> post_result"
  toDataURL :: "canvas \<Rightarrow> js_string"
  feed :: video

type_synonym client = "app_state \<times> world"

subsection \<open>Small JavaScript helpers of the client\<close>

fun or_str :: "string option \<Rightarrow> string \<Rightarrow> string" where
  "or_str (Some s) d = (if s \<noteq> [] then s else d)"
| "or_str None d = d"

text \<open>
  \<open>s.trim()\<close> removes white space and line terminators from both ends. In ECMAScript
  these are the code units U+0009 to U+000D, U+0020, U+00A0, U+1680, U+2000 to U+200A,
  U+2028, U+2029, U+202F, U+205F, U+3000 and U+FEFF.
\<close>

definition is_space :: "16 word \<Rightarrow> bool" where
  "is_space c =
     ((0x0009 \<le> c \<and> c \<le> 0x000D) \<or> c = 0x0020 \<or> c = 0x00A0 \<or> c = 0x1680
      \<or> (0x2000 \<le> c \<and> c \<le> 0x200A) \<or> c = 0x2028 \<or> c = 0x2029 \<or> c = 0x202F
      \<or> c = 0x205F \<or> c = 0x3000 \<or> c = 0xFEFF)"

definition trim :: "js_string \<Rightarrow> js_string" where
  "trim s = rev (dropWhile is_space (rev (dropWhile is_space s)))"

text \<open>The decimal text a template literal gives a non-negative integer.\<close>

definition digit :: "nat \<Rightarrow> char" where
  "digit d = ''0123456789'' ! d"

function string_of_nat :: "nat \<Rightarrow> string" where
  "string_of_nat n =
     (if n < 10 then [digit n] else string_of_nat (n div 10) @ [digit (n mod 10)])"
  by pat_completeness auto
termination
  by (relation "measure id") auto

subsection \<open>First variant: camera and acquisition\<close>

text \<open>\<open>cameraStream.getTracks().forEach(track => track.stop())\<close>\<close>

definition stop_tracks :: "media_stream \<Rightarrow> (track_id \<Rightarrow> ready_state) \<Rightarrow> (track_id \<Rightarrow> ready_state)" where
  "stop_tracks s ts = fold (\<lambda>t m. m(t := Ended)) s ts"

text \<open>\<open>getUserMedia\<close> hands out live tracks.\<close>

definition start_tracks :: "media_stream \<Rightarrow> (track_id \<Rightarrow> ready_state) \<Rightarrow> (track_id \<Rightarrow> ready_state)" where
  "start_tracks s ts = fold (\<lambda>t m. m(t := Live)) s ts"

definition clear_source :: "video option \<Rightarrow> video option" where
  "clear_source = map_option (\<lambda>v. v\<lparr>srcObject := None\<rparr>)"

text \<open>
  \<open>stopCamera\<close> of the render with snapshot \<open>snap\<close>: the test \<open>if (cameraStream)\<close>
  reads the snapshot, the setters and the track and element updates act on the present.
\<close>

definition stopCamera :: "app_state \<Rightarrow> client \<Rightarrow> client" where
  "stopCamera snap = (\<lambda>(st, w).
     case cameraStream snap of
       None \<Rightarrow> (st, w)
     | Some s \<Rightarrow>
         (st\<lparr>cameraStream := None, cameraActive := False\<rparr>,
          w\<lparr>tracks := stop_tracks s (tracks w), videoRef := clear_source (videoRef w)\<rparr>))"

text \<open>
  The \<open>try\<close>/\<open>catch\<close>/\<open>finally\<close> around \<open>axios.post\<close>, written out alike in the three
  handlers of the first variant; they differ in the notice for an empty result.
\<close>

definition after_post :: "string \<Rightarrow> post_result \<Rightarrow> app_state \<Rightarrow> app_state" where
  "after_post notice r st =
     (case r of
        PostOk fs \<Rightarrow>
          (st\<lparr>faces := fs, error := (if length fs = 0 then Some notice else error st)\<rparr>)
            \<lparr>loading := False\<rparr>
      | PostFailed e \<Rightarrow>
          st\<lparr>error := Some (or_str (response_error e) ''Failed to detect faces''),
             faces := [], loading := False\<rparr>)"

definition handleUrlSubmit :: "app_state \<Rightarrow> platform \<Rightarrow> client \<Rightarrow> client" where
  "handleUrlSubmit snap pf = (\<lambda>(st, w).
     if trim (imageUrl_state snap) = [] then (st, w)
     else
       let u = imageUrl_state snap;
           (st1, w1) = stopCamera snap (st\<lparr>error := None, loading := True, imagePreview := Some u\<rparr>, w)
       in (after_post ''No faces detected in the image''
             (post pf (ImageUrl u)) st1, w1))"

text \<open>\<open>file\<close> is the data URL the \<open>FileReader\<close> produces, \<open>None\<close> when no file was chosen.\<close>

definition handleFileUpload :: "app_state \<Rightarrow> platform \<Rightarrow> js_string option \<Rightarrow> client \<Rightarrow> client" where
  "handleFileUpload snap pf file = (\<lambda>(st, w).
     case file of
       None \<Rightarrow> (st, w)
     | Some d \<Rightarrow>
         let (st1, w1) = stopCamera snap (st, w);
             st2 = st1\<lparr>error := None, loading := True, imagePreview := Some d\<rparr>
         in (after_post ''No faces detected in the image''
               (post pf (ImageData d)) st2, w1))"

text \<open>
  The outcome of asking for the camera: a stream, or an error with its name and message
  (the two \<open>throw new Error\<close> of \<open>startCamera\<close> are errors named \<open>Error\<close>).
\<close>

datatype camera_outcome = Granted media_stream | CameraError string string

definition camera_error_text :: "string \<Rightarrow> string \<Rightarrow> string" where
  "camera_error_text name msg =
     ''Unable to access camera. '' @
     (if name = ''NotAllowedError'' \<or> name = ''PermissionDeniedError''
        then ''Please allow camera permissions in your browser.''
      else if name = ''NotFoundError'' \<or> name = ''DevicesNotFoundError''
        then ''No camera found on this device.''
      else if name = ''NotReadableError'' \<or> name = ''TrackStartError''
        then ''Camera is already in use by another application.''
      else msg)"

text \<open>
  \<open>startCamera\<close>. The video element is mounted by the render that follows
  \<open>setCameraActive(true)\<close> and receives the stream in the timer callback; both are
  taken as one step here.
\<close>

definition startCamera :: "platform \<Rightarrow> camera_outcome \<Rightarrow> client \<Rightarrow> client" where
  "startCamera pf outcome = (\<lambda>(st, w).
     case outcome of
       Granted s \<Rightarrow>
         (st\<lparr>error := None, cameraStream := Some s, cameraActive := True,
             imagePreview := None, faces := [], loading := False\<rparr>,
          w\<lparr>tracks := start_tracks s (tracks w),
            videoRef := Some ((feed pf)\<lparr>srcObject := Some s\<rparr>)\<rparr>)
     | CameraError name msg \<Rightarrow>
         (st\<lparr>error := Some (camera_error_text name msg), cameraActive := False,
             loading := False\<rparr>, w))"

definition capturePhoto :: "app_state \<Rightarrow> platform \<Rightarrow> client \<Rightarrow> client" where
  "capturePhoto snap pf = (\<lambda>(st, w).
     case videoRef w of
       None \<Rightarrow> (st, w)
     | Some v \<Rightarrow>
         let c1 = set_height (videoHeight v) (set_width (videoWidth v) (captureCanvas w));
             c2 = drawImage v (- int (cwidth c1)) 0 (int (cwidth c1)) (int (cheight c1))
                    (ctx_scale (- 1) 1 c1);
             d = toDataURL pf c2;
             (st1, w1) = stopCamera snap
                           (st\<lparr>loading := True, error := None, imagePreview := Some d\<rparr>,
                            w\<lparr>captureCanvas := c2\<rparr>)
         in (after_post ''No faces detected in the photo''
               (post pf (ImageData d)) st1, w1))"

text \<open>
  \<open>useEffect(() => { return () => { stopCamera(); }; }, [])\<close>: with the empty dependency
  list the effect runs after the first render only, so the cleanup it returns holds the
  \<open>stopCamera\<close> of that render, whose snapshot is the initial state. On teardown the
  element behind \<open>videoRef\<close> is detached before the cleanup runs.
\<close>

definition unmount :: "client \<Rightarrow> client" where
  "unmount = (\<lambda>(st, w). stopCamera initial_state (st, w\<lparr>videoRef := None\<rparr>))"

text \<open>
  User events. A handler that the user triggers belongs to the latest render, so its
  snapshot is the current state. After the handler the component renders again; in the
  first variant the video element exists only while \<open>cameraActive\<close> holds.
\<close>

datatype event =
    EditUrl js_string
  | SubmitUrl
  | ChooseFile "js_string option"
  | ClickStart camera_outcome
  | ClickCapture
  | ClickStop
  | ClickReset
  | Unmount

definition rerender :: "client \<Rightarrow> client" where
  "rerender = (\<lambda>(st, w). (st, if cameraActive st then w else w\<lparr>videoRef := None\<rparr>))"

fun step :: "platform \<Rightarrow> event \<Rightarrow> client \<Rightarrow> client" where
  "step pf (EditUrl u) (st, w) = rerender (st\<lparr>imageUrl_state := u\<rparr>, w)"
| "step pf SubmitUrl (st, w) = rerender (handleUrlSubmit st pf (st, w))"
| "step pf (ChooseFile f) (st, w) = rerender (handleFileUpload st pf f (st, w))"
| "step pf (ClickStart outcome) (st, w) = rerender (startCamera pf outcome (st, w))"
| "step pf ClickCapture (st, w) = rerender (capturePhoto st pf (st, w))"
| "step pf ClickStop (st, w) = rerender (stopCamera st (st, w))"
| "step pf ClickReset (st, w) = (st, w)"
| "step pf Unmount (st, w) = unmount (st, w)"

definition run :: "platform \<Rightarrow> event list \<Rightarrow> client \<Rightarrow> client" where
  "run pf evs c = fold (step pf) evs c"

subsection \<open>Second variant (the Material UI component): camera and acquisition\<close>

definition stopCamera_mui :: "app_state \<Rightarrow> client \<Rightarrow> client" where
  "stopCamera_mui snap = (\<lambda>(st, w).
     let (st1, w1) =
           (case cameraStream snap of
              None \<Rightarrow> (st, w)
            | Some s \<Rightarrow> (st\<lparr>cameraStream := None\<rparr>, w\<lparr>tracks := stop_tracks s (tracks w)\<rparr>))
     in (st1\<lparr>cameraActive := False\<rparr>, w1\<lparr>videoRef := clear_source (videoRef w1)\<rparr>))"

definition apiPostDetect :: "platform \<Rightarrow> detect_request \<Rightarrow> app_state \<Rightarrow> app_state" where
  "apiPostDetect pf b st =
     (let st0 = st\<lparr>error := None, loading := True\<rparr>
      in case post pf b of
           PostOk fs \<Rightarrow>
             (st0\<lparr>faces := fs,
                  error := (if length fs = 0 then Some ''No faces detected'' else error st0)\<rparr>)
               \<lparr>loading := False\<rparr>
         | PostFailed e \<Rightarrow>
             st0\<lparr>error := Some (or_str (response_error e)
                                  (or_str (Some (error_message e)) ''Detection failed'')),
                 faces := [], loading := False\<rparr>)"

definition handleUrlSubmit_mui :: "app_state \<Rightarrow> platform \<Rightarrow> client \<Rightarrow> client" where
  "handleUrlSubmit_mui snap pf = (\<lambda>(st, w).
     if trim (imageUrl_state snap) = [] then (st, w)
     else
       let u = imageUrl_state snap;
           (st1, w1) = stopCamera_mui snap (st, w)
       in (apiPostDetect pf (ImageUrl u)
             (st1\<lparr>imagePreview := Some u\<rparr>), w1))"

definition handleFileUpload_mui :: "app_state \<Rightarrow> platform \<Rightarrow> js_string option \<Rightarrow> client \<Rightarrow> client" where
  "handleFileUpload_mui snap pf file = (\<lambda>(st, w).
     case file of
       None \<Rightarrow> (st, w)
     | Some d \<Rightarrow>
         let (st1, w1) = stopCamera_mui snap (st, w)
         in (apiPostDetect pf (ImageData d)
               (st1\<lparr>error := None, imagePreview := Some d\<rparr>), w1))"

text \<open>
  The video element of this variant is always mounted; \<open>startCamera\<close> gives it the
  stream at once.
\<close>

definition startCamera_mui :: "platform \<Rightarrow> camera_outcome \<Rightarrow> client \<Rightarrow> client" where
  "startCamera_mui pf outcome = (\<lambda>(st, w).
     case outcome of
       Granted s \<Rightarrow>
         (st\<lparr>error := None, cameraStream := Some s, cameraActive := True,
             imagePreview := None, faces := [], loading := False\<rparr>,
          w\<lparr>tracks := start_tracks s (tracks w),
            videoRef := (case videoRef w of
                           None \<Rightarrow> None
                         | Some v \<Rightarrow> Some ((feed pf)\<lparr>srcObject := Some s\<rparr>))\<rparr>)
     | CameraError name msg \<Rightarrow>
         (st\<lparr>error := Some (if name = ''NotAllowedError'' then ''Camera permission denied''
                              else or_str (Some msg) ''Unable to access camera''),
             loading := False\<rparr>, w))"

text \<open>\<open>video.videoWidth || 1280\<close> and \<open>video.videoHeight || 720\<close>\<close>

definition or_nat :: "nat \<Rightarrow> nat \<Rightarrow> nat" where
  "or_nat n d = (if n = 0 then d else n)"

definition capturePhoto_mui :: "app_state \<Rightarrow> platform \<Rightarrow> client \<Rightarrow> client" where
  "capturePhoto_mui snap pf = (\<lambda>(st, w).
     case videoRef w of
       None \<Rightarrow> (st, w)
     | Some v \<Rightarrow>
         let c1 = set_height (or_nat (videoHeight v) 720)
                    (set_width (or_nat (videoWidth v) 1280) (captureCanvas w));
             c2 = ctx_restore
                    (drawImage v (- int (cwidth c1)) 0 (int (cwidth c1)) (int (cheight c1))
                      (ctx_scale (- 1) 1 (ctx_save c1)));
             d = toDataURL pf c2;
             (st1, w1) = stopCamera_mui snap
                           (st\<lparr>loading := True, error := None, imagePreview := Some d\<rparr>,
                            w\<lparr>captureCanvas := c2\<rparr>)
         in ((apiPostDetect pf (ImageData d) st1)
               \<lparr>loading := False\<rparr>, w1))"

text \<open>\<open>useEffect(() => { return () => stopCamera(); }, [])\<close>, as in the first variant.\<close>

definition unmount_mui :: "client \<Rightarrow> client" where
  "unmount_mui = (\<lambda>(st, w). stopCamera_mui initial_state (st, w\<lparr>videoRef := None\<rparr>))"

fun step_mui :: "platform \<Rightarrow> event \<Rightarrow> client \<Rightarrow> client" where
  "step_mui pf (EditUrl u) (st, w) = (st\<lparr>imageUrl_state := u\<rparr>, w)"
| "step_mui pf SubmitUrl (st, w) = handleUrlSubmit_mui st pf (st, w)"
| "step_mui pf (ChooseFile f) (st, w) = handleFileUpload_mui st pf f (st, w)"
| "step_mui pf (ClickStart outcome) (st, w) = startCamera_mui pf outcome (st, w)"
| "step_mui pf ClickCapture (st, w) = capturePhoto_mui st pf (st, w)"
| "step_mui pf ClickStop (st, w) = stopCamera_mui st (st, w)"
| "step_mui pf ClickReset (st, w) =
     stopCamera_mui st (st\<lparr>imagePreview := None, faces := [], error := None\<rparr>, w)"
| "step_mui pf Unmount (st, w) = unmount_mui (st, w)"

definition run_mui :: "platform \<Rightarrow> event list \<Rightarrow> client \<Rightarrow> client" where
  "run_mui pf evs c = fold (step_mui pf) evs c"

subsection \<open>Rendering the result\<close>

text \<open>
  The visible canvas is modelled by the calls made on its 2D context, in order. The
  angles of \<open>arc\<close> (a full circle) and the CSS size of the canvas are left out.
\<close>

datatype draw_op =
    CanvasSize nat nat
  | SetTransform nat
  | ClearRect int int int int
  | DrawImage int int int int
  | StrokeStyle string
  | LineWidth nat
  | StrokeRect int int int int
  | FillStyle string
  | Font string
  | FillText string int int
  | BeginPath
  | Arc int int int
  | Fill

record image =
  img_width :: nat
  img_height :: nat
  naturalWidth :: nat
  naturalHeight :: nat
  complete :: bool

definition drawPoint :: "point option \<Rightarrow> draw_op list" where
  "drawPoint p = (case p of None \<Rightarrow> [] | Some (x, y) \<Rightarrow> [BeginPath, Arc x y 3, Fill])"

definition draw_landmarks :: "landmarks \<Rightarrow> draw_op list" where
  "draw_landmarks lm =
     drawPoint (pupilLeft lm) @ drawPoint (pupilRight lm) @ drawPoint (noseTip lm)
     @ drawPoint (mouthLeft lm) @ drawPoint (mouthRight lm)"

definition face_label :: "nat \<Rightarrow> string" where
  "face_label index = ''Face '' @ string_of_nat (index + 1)"

text \<open>
  The body of \<open>faces.forEach((face, index) => ...)\<close> in \<open>drawFaceBoxes\<close>. Reading
  \<open>rect.left\<close> of a record without \<open>faceRectangle\<close> throws and ends the loop: the
  result is the calls made so far and whether the loop ran to its end.
\<close>

definition box_ops :: "nat \<Rightarrow> rect \<Rightarrow> face \<Rightarrow> draw_op list" where
  "box_ops index r f =
     [StrokeStyle ''#00ff00'', LineWidth 4,
      StrokeRect (rect_left r) (rect_top r) (rect_width r) (rect_height r),
      FillStyle ''#00ff00'', Font ''bold 20px Arial'',
      FillText (face_label index) (rect_left r) (rect_top r - 10)]
     @ (case faceLandmarks f of
          None \<Rightarrow> []
        | Some lm \<Rightarrow> FillStyle ''#00ff00'' # draw_landmarks lm)"

fun draw_boxes :: "nat \<Rightarrow> face list \<Rightarrow> draw_op list \<times> bool" where
  "draw_boxes index [] = ([], True)"
| "draw_boxes index (f # fs) =
     (case faceRectangle f of
        None \<Rightarrow> ([], False)
      | Some r \<Rightarrow>
          let (ops, finished) = draw_boxes (Suc index) fs
          in (box_ops index r f @ ops, finished))"

text \<open>
  \<open>drawFaceBoxes\<close> of the render with snapshot \<open>snap\<close>, the \<open>onLoad\<close> handler of the
  preview image: \<open>img\<close> is the element behind \<open>imageRef\<close>, \<open>has_canvas\<close> says whether
  \<open>canvasRef\<close> is attached.
\<close>

definition drawFaceBoxes :: "app_state \<Rightarrow> image option \<Rightarrow> bool \<Rightarrow> draw_op list \<times> bool" where
  "drawFaceBoxes snap img has_canvas =
     (case img of
        None \<Rightarrow> ([], True)
      | Some i \<Rightarrow>
          if \<not> has_canvas \<or> length (faces snap) = 0 then ([], True)
          else
            let (ops, finished) = draw_boxes 0 (faces snap)
            in ([CanvasSize (img_width i) (img_height i),
                 DrawImage 0 0 (int (img_width i)) (int (img_height i))] @ ops, finished))"

text \<open>
  The second variant draws in an effect that depends on the preview, the faces and the
  theme. A record without rectangle is skipped (\<open>if (!rect) return\<close>), and a record
  without landmarks has none to draw (\<open>face.faceLandmarks || {}\<close>).
\<close>

datatype theme = Dark | Light

definition accent :: "theme \<Rightarrow> string" where
  "accent m = (case m of Dark \<Rightarrow> ''#7ef9a6'' | Light \<Rightarrow> ''#2e7d32'')"

definition box_ops_mui :: "theme \<Rightarrow> nat \<Rightarrow> face \<Rightarrow> draw_op list" where
  "box_ops_mui m idx f =
     (case faceRectangle f of
        None \<Rightarrow> []
      | Some r \<Rightarrow>
          [StrokeStyle (accent m), LineWidth (max 3 4),
           StrokeRect (rect_left r) (rect_top r) (rect_width r) (rect_height r),
           FillStyle (accent m), Font ''bold 18px Inter, Arial'',
           FillText (face_label idx) (rect_left r + 6) (max 20 (rect_top r - 8))]
          @ (case faceLandmarks f of None \<Rightarrow> [] | Some lm \<Rightarrow> draw_landmarks lm))"

fun draw_boxes_mui :: "theme \<Rightarrow> nat \<Rightarrow> face list \<Rightarrow> draw_op list" where
  "draw_boxes_mui m idx [] = []"
| "draw_boxes_mui m idx (f # fs) = box_ops_mui m idx f @ draw_boxes_mui m (Suc idx) fs"

text \<open>\<open>render\<close>; \<open>ratio\<close> is \<open>window.devicePixelRatio || 1\<close>, taken as a whole number.\<close>

definition render :: "theme \<Rightarrow> nat \<Rightarrow> app_state \<Rightarrow> image \<Rightarrow> draw_op list" where
  "render m dpr snap i =
     (let ratio = or_nat dpr 1;
          w = naturalWidth i * ratio;
          h = naturalHeight i * ratio
      in [CanvasSize w h, SetTransform ratio, ClearRect 0 0 (int w) (int h),
          DrawImage 0 0 (int (naturalWidth i)) (int (naturalHeight i))]
         @ draw_boxes_mui m 0 (faces snap))"

text \<open>
  The effect around it: nothing without image element or canvas; \<open>render\<close> at once when
  the image is loaded, and from its \<open>onload\<close> otherwise.
\<close>

datatype drawing = Nothing | Drawn "draw_op list" | OnLoad "draw_op list"

definition render_effect :: "theme \<Rightarrow> nat \<Rightarrow> app_state \<Rightarrow> image option \<Rightarrow> bool \<Rightarrow> drawing" where
  "render_effect m dpr snap img has_canvas =
     (case img of
        None \<Rightarrow> Nothing
      | Some i \<Rightarrow>
          if \<not> has_canvas then Nothing
          else if complete i \<and> naturalWidth i \<noteq> 0 then Drawn (render m dpr snap i)
          else OnLoad (render m dpr snap i))"

subsection \<open>What a drawing shows\<close>

text \<open>The rectangles stroked and the texts written by a sequence of context calls, in order.\<close>

fun rectangles :: "draw_op list \<Rightarrow> (int \<times> int \<times> int \<times> int) list" where
  "rectangles [] = []"
| "rectangles (StrokeRect l t w h # ops) = (l, t, w, h) # rectangles ops"
| "rectangles (other # ops) = rectangles ops"


fun images_drawn :: "draw_op list \<Rightarrow> nat" where
  "images_drawn [] = 0"
| "images_drawn (DrawImage x y w h # ops) = Suc (images_drawn ops)"
| "images_drawn (other # ops) = images_drawn ops"


section \<open>Concrete inputs\<close>

text \<open>
  A decoder for well-formed base64 text (RFC 4648), to run the handler on concrete
  requests: the characters up to the first one outside the alphabet give six bits
  each, and every eight bits one byte. The theorems about the handler hold for any decoder.
\<close>

definition base64_alphabet :: string where
  "base64_alphabet = ''ABCDEFGHIJKLMNOPQRSTUVWXYZabcdefghijklmnopqrstuvwxyz0123456789+/''"

fun index_of :: "'a \<Rightarrow> 'a list \<Rightarrow> nat option" where
  "index_of x [] = None"
| "index_of x (y # ys) = (if x = y then Some 0 else map_option Suc (index_of x ys))"

fun sextets :: "string \<Rightarrow> nat list" where
  "sextets [] = []"
| "sextets (c # cs) =
     (case index_of c base64_alphabet of None \<Rightarrow> [] | Some v \<Rightarrow> v # sextets cs)"

fun octets :: "nat list \<Rightarrow> byte list" where
  "octets (a # b # c # d # rest) =
     of_nat (a * 4 + b div 16) # of_nat ((b mod 16) * 16 + c div 4)
       # of_nat ((c mod 4) * 64 + d) # octets rest"
| "octets [a, b, c] = [of_nat (a * 4 + b div 16), of_nat ((b mod 16) * 16 + c div 4)]"
| "octets [a, b] = [of_nat (a * 4 + b div 16)]"
| "octets other = []"

definition base64_decode :: "string \<Rightarrow> byte list" where
  "base64_decode s = octets (sextets s)"

text \<open>Base64 text of \<open>n\<close> groups of four characters, which decodes to \<open>3 * n\<close> bytes.\<close>

definition zero_payload :: "nat \<Rightarrow> string" where
  "zero_payload n = concat (replicate n ''AAAA'')"

definition example_config :: config where
  "example_config =
     \<lparr>AZURE_ENDPOINT = ''https://vision.example.com/'', AZURE_KEY = ''secret'', PORT = ''3001''\<rparr>"

definition example_env :: env where
  "example_env =
     [''AZURE_FACE_ENDPOINT'' \<mapsto> ''https://vision.example.com/'', ''AZURE_FACE_KEY'' \<mapsto> ''secret'']"

text \<open>An external service that answers every request alike.\<close>

definition resolves :: "json \<Rightarrow> request_config \<Rightarrow> axios_result" where
  "resolves d rc = Resolved d"

definition rejects :: "js_error \<Rightarrow> request_config \<Rightarrow> axios_result" where
  "rejects e rc = Rejected e"

definition one_face_json :: json where
  "one_face_json =
     JArr [JObj [(''faceRectangle'',
             JObj [(''left'', JNum 10), (''top'', JNum 20), (''width'', JNum 100), (''height'', JNum 120)])]]"

subsection \<open>Inputs for the client\<close>

definition blank_video :: video where
  "blank_video = \<lparr>srcObject = None, videoWidth = 0, videoHeight = 0, frame = []\<rparr>"

definition small_feed :: video where
  "small_feed = \<lparr>srcObject = None, videoWidth = 3, videoHeight = 2, frame = [[1, 2, 3], [4, 5, 6]]\<rparr>"

definition blank_canvas :: canvas where
  "blank_canvas =
     \<lparr>cwidth = 300, cheight = 150, bitmap = replicate 150 (replicate 300 None),
      scale_x = 1, scale_y = 1, saved = []\<rparr>"

text \<open>ASCII text as a JavaScript string.\<close>

definition units :: "string \<Rightarrow> js_string" where
  "units s = map (\<lambda>c. of_nat (of_char c)) s"

definition example_platform :: "post_result \<Rightarrow> video \<Rightarrow> platform" where
  "example_platform r v =
     \<lparr>post = (\<lambda>b. r), toDataURL = (\<lambda>c. units ''data:image/jpeg;base64,/9j/''), feed = v\<rparr>"

definition initial_world :: world where
  "initial_world = \<lparr>tracks = (\<lambda>t. Ended), videoRef = None, captureCanvas = blank_canvas\<rparr>"

definition initial_world_mui :: world where
  "initial_world_mui = \<lparr>tracks = (\<lambda>t. Ended), videoRef = Some blank_video, captureCanvas = blank_canvas\<rparr>"


definition loaded_image :: image where
  "loaded_image = \<lparr>img_width = 640, img_height = 480, naturalWidth = 640, naturalHeight = 480, complete = True\<rparr>"

definition unauthorized_error :: js_error where
  "unauthorized_error =
     \<lparr>message = ''Request failed with status code 401'',
      response = Some \<lparr>resp_status = 401,
        resp_data = JObj [(''error'',
          JObj [(''code'', JStr ''Unauthorized''), (''message'', JStr ''Access denied'')])]\<rparr>\<rparr>"

section \<open>Notions used to state the properties\<close>

text \<open>
  The first truthy value of a list of candidates: the best available message is the
  first truthy one of the places the message may come from.
\<close>

fun first_truthy :: "json option list \<Rightarrow> json option" where
  "first_truthy [] = None"
| "first_truthy (None # vs) = first_truthy vs"
| "first_truthy (Some v # vs) = (if truthy v then Some v else first_truthy vs)"

text \<open>
  The fixed set of suggestions as a table from the external error code to the text.
\<close>

definition spec_suggestions :: "(string \<times> string) list" where
  "spec_suggestions =
     [(''InvalidImageUrl'', ''The image URL is invalid or inaccessible. Please check the URL.''),
      (''InvalidImageFormat'', ''The image format is not supported. Use JPG, PNG, GIF, or BMP.''),
      (''InvalidImageSize'', ''The image size is invalid. Image must be between 1KB and 6MB.''),
      (''InvalidRequest'', ''The request format is invalid. This might be an API version issue.''),
      (''Unauthorized'', ''Invalid API key. Please check your Azure subscription key.'')]"

text \<open>
  A video whose frame has the size the element reports, and the left-right mirror image
  of a frame as the content of a canvas.
\<close>

definition wf_video :: "video \<Rightarrow> bool" where
  "wf_video v = (length (frame v) = videoHeight v \<and> list_all (\<lambda>row. length row = videoWidth v) (frame v))"

definition mirror :: "pixel list list \<Rightarrow> pixel option list list" where
  "mirror rows = map (\<lambda>row. map Some (rev row)) rows"



text \<open>
  What the client shows after a detection that found no face. First variant: an empty
  face list, the notice, and a \<open>drawFaceBoxes\<close> that makes no call on the canvas. Second
  variant: an empty face list, the notice, and a \<open>render\<close> that sizes and clears the canvas
  and draws the preview image, once, and no rectangle.
\<close>

definition first_variant_outcome :: "string \<Rightarrow> image option \<Rightarrow> bool \<Rightarrow> app_state \<Rightarrow> bool" where
  "first_variant_outcome notice img has_canvas st =
     (faces st = [] \<and> error st = Some notice \<and> drawFaceBoxes st img has_canvas = ([], True))"

definition second_variant_outcome :: "theme \<Rightarrow> nat \<Rightarrow> image \<Rightarrow> app_state \<Rightarrow> bool" where
  "second_variant_outcome m dpr i st =
     (faces st = [] \<and> error st = Some ''No faces detected'' \<and>
      render m dpr st i =
        [CanvasSize (naturalWidth i * or_nat dpr 1) (naturalHeight i * or_nat dpr 1),
         SetTransform (or_nat dpr 1),
         ClearRect 0 0 (int (naturalWidth i * or_nat dpr 1)) (int (naturalHeight i * or_nat dpr 1)),
         DrawImage 0 0 (int (naturalWidth i)) (int (naturalHeight i))] \<and>
      images_drawn (render m dpr st i) = 1 \<and>
      rectangles (render m dpr st i) = [])"

section \<open>Properties of the proxy\<close>

subsection \<open>Strings\<close>

lemma split_from_nonempty: "split_from sep acc s \<noteq> []"
  by (induction sep acc s rule: split_from.induct) auto

lemma includes_split_from:
  "sep \<noteq> [] \<Longrightarrow> includes_str s sep \<Longrightarrow> \<exists>x y ys. split_from sep acc s = x # y # ys"
proof (induction s arbitrary: acc)
  case Nil
  then show ?case by simp
next
  case (Cons c cs)
  show ?case
  proof (cases "prefix sep (c # cs)")
    case True
    obtain y ys where "split_from sep [] (drop (length sep) (c # cs)) = y # ys"
      using split_from_nonempty [of sep "[]" "drop (length sep) (c # cs)"]
      by (auto simp: neq_Nil_conv)
    with True Cons.prems(1) show ?thesis by simp
  next
    case False
    with Cons.prems have "includes_str cs sep" by simp
    from Cons.IH [OF Cons.prems(1) this, of "c # acc"] False show ?thesis by simp
  qed
qed

lemma base64Data_defined: "\<exists>s. base64Data d = Some s"
proof (cases "includes_str d ''base64,''")
  case True
  then obtain x y ys where "split_from ''base64,'' [] d = x # y # ys"
    using includes_split_from [of "''base64,''" d "[]"] by auto
  with True show ?thesis by (simp add: base64Data_def split_str_def)
next
  case False
  then show ?thesis by (simp add: base64Data_def)
qed

lemma includes_str_set: "includes_str s sep \<Longrightarrow> set sep \<subseteq> set s"
proof (induction s)
  case Nil
  then show ?case by simp
next
  case (Cons c cs)
  then consider "prefix sep (c # cs)" | "includes_str cs sep" by auto
  then show ?case
  proof cases
    case 1
    then show ?thesis by (rule set_mono_prefix)
  next
    case 2
    with Cons.IH show ?thesis by auto
  qed
qed

lemma sextets_zero_payload: "sextets (zero_payload n) = concat (replicate n [0, 0, 0, 0])"
  unfolding zero_payload_def by (induction n) (simp_all add: base64_alphabet_def)

lemma octets_zero: "length (octets (concat (replicate n [0, 0, 0, 0]))) = 3 * n"
  by (induction n) simp_all

lemma length_decode_zero_payload: "length (base64_decode (zero_payload n)) = 3 * n"
  by (simp add: base64_decode_def sextets_zero_payload octets_zero)

lemma zero_payload_nonempty: "0 < n \<Longrightarrow> zero_payload n \<noteq> []"
  unfolding zero_payload_def by (cases n) simp_all

lemma base64Data_zero_payload: "base64Data (zero_payload n) = Some (zero_payload n)"
proof -
  have "\<not> includes_str (zero_payload n) ''base64,''"
  proof
    assume "includes_str (zero_payload n) ''base64,''"
    then have "set ''base64,'' \<subseteq> set (zero_payload n)"
      by (rule includes_str_set)
    then have "CHR ''b'' \<in> set (zero_payload n)" by auto
    then show False by (auto simp: zero_payload_def split: if_splits)
  qed
  then show ?thesis by (simp add: base64Data_def)
qed

subsection \<open>The paths through the handler\<close>

lemma snd_send: "snd (send azure rc) = [rc]"
  by (simp add: send_def split: axios_result.splits)

lemma detect_faces_url:
  "imageUrl b = Some u \<Longrightarrow> u \<noteq> [] \<Longrightarrow> detect_faces dec cfg azure b = send azure (url_request cfg u)"
  by (simp add: detect_faces_def)

lemma detect_faces_neither:
  "\<not> truthy_str (imageUrl b) \<Longrightarrow> \<not> truthy_str (imageData b) \<Longrightarrow>
   detect_faces dec cfg azure b = (bad_request ''Either imageUrl or imageData is required'', [])"
  by (simp add: detect_faces_def)

lemma detect_faces_inline:
  "\<not> truthy_str (imageUrl b) \<Longrightarrow> imageData b = Some d \<Longrightarrow> d \<noteq> [] \<Longrightarrow> base64Data d = Some s \<Longrightarrow>
   detect_faces dec cfg azure b =
     (if 6 * 1024 * 1024 < length (dec s) then (bad_request ''Image too large. Maximum size is 6MB.'', [])
      else if length (dec s) < 1024 then (bad_request ''Image too small or corrupted.'', [])
      else send azure (buffer_request cfg (dec s)))"
  by (simp add: detect_faces_def Let_def)

lemma detect_faces_sent:
  assumes "snd (detect_faces dec cfg azure b) = [rc]"
  shows "detect_faces dec cfg azure b = send azure rc"
proof (cases "truthy_str (imageUrl b)")
  case True
  then obtain u where u: "imageUrl b = Some u" "u \<noteq> []"
    by (cases "imageUrl b") auto
  with assms show ?thesis by (simp add: detect_faces_url snd_send)
next
  case no_url: False
  show ?thesis
  proof (cases "truthy_str (imageData b)")
    case False
    with no_url assms show ?thesis by (simp add: detect_faces_neither)
  next
    case True
    then obtain d where d: "imageData b = Some d" "d \<noteq> []"
      by (cases "imageData b") auto
    obtain s where s: "base64Data d = Some s"
      using base64Data_defined by blast
    from assms show ?thesis
      unfolding detect_faces_inline [OF no_url d s]
      by (simp add: snd_send split: if_splits)
  qed
qed

subsection \<open>Size bounds of an inline payload\<close>

text \<open>
  Claim C1, as the code has it. For a request without usable \<open>imageUrl\<close> that carries
  \<open>imageData\<close>, the text after the data-URL prefix is always defined; when its decoded
  length is below 1024 bytes or above 6 * 1024 * 1024 bytes the proxy answers 400 with a
  message naming the reason and sends nothing to the external service; when the payload is
  not empty and its decoded length lies within the inclusive bounds, the size check passes
  and exactly one request, carrying the decoded bytes, goes out.
\<close>

theorem inline_size_check:
  assumes "\<not> truthy_str (imageUrl b)" and "imageData b = Some d"
  shows "\<exists>s. base64Data d = Some s \<and>
     (length (dec s) < 1024 \<or> 6 * 1024 * 1024 < length (dec s) \<longrightarrow>
        snd (detect_faces dec cfg azure b) = [] \<and>
        http_status (fst (detect_faces dec cfg azure b)) = 400 \<and>
        http_body (fst (detect_faces dec cfg azure b)) =
          JObj [(''error'', JStr
            (if d = [] then ''Either imageUrl or imageData is required''
             else if 6 * 1024 * 1024 < length (dec s) then ''Image too large. Maximum size is 6MB.''
             else ''Image too small or corrupted.''))]) \<and>
     (d \<noteq> [] \<and> 1024 \<le> length (dec s) \<and> length (dec s) \<le> 6 * 1024 * 1024 \<longrightarrow>
        detect_faces dec cfg azure b = send azure (buffer_request cfg (dec s)) \<and>
        snd (detect_faces dec cfg azure b) = [buffer_request cfg (dec s)])"
proof -
  obtain s where s: "base64Data d = Some s"
    using base64Data_defined by blast
  show ?thesis
  proof (cases "d = []")
    case True
    with assms have "detect_faces dec cfg azure b =
        (bad_request ''Either imageUrl or imageData is required'', [])"
      by (simp add: detect_faces_neither)
    with s True show ?thesis by (simp add: bad_request_def)
  next
    case False
    note eq = detect_faces_inline [OF assms(1) assms(2) False s, of dec cfg azure]
    from s False show ?thesis
      by (simp add: eq bad_request_def snd_send)
  qed
qed

theorem inline_size_check_witness:
  "\<not> truthy_str None \<and>
   base64Data ''data:image/png;base64,AAAA'' = Some ''AAAA'' \<and>
   length (base64_decode ''AAAA'') < 1024 \<and>
   detect_faces base64_decode example_config (resolves one_face_json)
       \<lparr>imageUrl = None, imageData = Some ''data:image/png;base64,AAAA''\<rparr>
     = (bad_request ''Image too small or corrupted.'', []) \<and>
   1024 \<le> length (base64_decode (zero_payload 342)) \<and>
   length (base64_decode (zero_payload 342)) \<le> 6 * 1024 * 1024 \<and>
   detect_faces base64_decode example_config (resolves one_face_json)
       \<lparr>imageUrl = None, imageData = Some (zero_payload 342)\<rparr>
     = (\<lparr>http_status = 200, http_body = one_face_json\<rparr>,
        [buffer_request example_config (base64_decode (zero_payload 342))]) \<and>
   6 * 1024 * 1024 < length (base64_decode (zero_payload 2097153)) \<and>
   detect_faces base64_decode example_config (resolves one_face_json)
       \<lparr>imageUrl = None, imageData = Some (zero_payload 2097153)\<rparr>
     = (bad_request ''Image too large. Maximum size is 6MB.'', [])"
proof -
  let ?small = "\<lparr>imageUrl = None, imageData = Some ''data:image/png;base64,AAAA''\<rparr>"
  let ?ok = "\<lparr>imageUrl = None, imageData = Some (zero_payload 342)\<rparr>"
  let ?large = "\<lparr>imageUrl = None, imageData = Some (zero_payload 2097153)\<rparr>"
  have p: "base64Data ''data:image/png;base64,AAAA'' = Some ''AAAA''"
    by (simp add: base64Data_def split_str_def)
  have l: "length (base64_decode ''AAAA'') = 3"
    by (simp add: base64_decode_def base64_alphabet_def)
  have ne: "zero_payload 342 \<noteq> []" "zero_payload 2097153 \<noteq> []"
    by (simp_all add: zero_payload_nonempty)
  from inline_size_check [of ?small "''data:image/png;base64,AAAA''" base64_decode
      example_config "resolves one_face_json"] p l
  have small: "detect_faces base64_decode example_config (resolves one_face_json) ?small
      = (bad_request ''Image too small or corrupted.'', [])"
    by (simp add: bad_request_def prod_eq_iff)
  from inline_size_check [of ?ok "zero_payload 342" base64_decode
      example_config "resolves one_face_json"] ne
  have ok: "detect_faces base64_decode example_config (resolves one_face_json) ?ok
      = send (resolves one_face_json)
          (buffer_request example_config (base64_decode (zero_payload 342)))"
    by (simp add: base64Data_zero_payload length_decode_zero_payload)
  from inline_size_check [of ?large "zero_payload 2097153" base64_decode
      example_config "resolves one_face_json"] ne
  have large: "detect_faces base64_decode example_config (resolves one_face_json) ?large
      = (bad_request ''Image too large. Maximum size is 6MB.'', [])"
    by (simp add: base64Data_zero_payload length_decode_zero_payload bad_request_def prod_eq_iff)
  show ?thesis
    using p l small ok large
    by (simp add: length_decode_zero_payload send_def resolves_def one_face_json_def)
qed

text \<open>
  Claim C1 as stated speaks of every request that carries an inline payload. A request
  that also carries a URL takes the URL branch: its three-byte payload is never measured,
  and the request is forwarded.
\<close>

theorem inline_size_check_counterexample:
  "length (base64_decode ''AAAA'') < 1024 \<and>
   detect_faces base64_decode example_config (resolves one_face_json)
       \<lparr>imageUrl = Some ''https://example.com/face.jpg'', imageData = Some ''AAAA''\<rparr>
     = (\<lparr>http_status = 200, http_body = one_face_json\<rparr>,
        [url_request example_config ''https://example.com/face.jpg''])"
  by (simp add: detect_faces_def send_def resolves_def one_face_json_def
      base64_decode_def base64_alphabet_def)

subsection \<open>Neither form, both forms\<close>

text \<open>
  Claim C2, as the code has it. A request with neither \<open>imageUrl\<close> nor \<open>imageData\<close>
  (absent or empty) is answered 400 with no call to the external service. A request with
  both is not rejected: the URL is forwarded.
\<close>

theorem neither_rejected_both_forwarded:
  "(\<not> truthy_str (imageUrl b) \<and> \<not> truthy_str (imageData b) \<longrightarrow>
      http_status (fst (detect_faces dec cfg azure b)) = 400 \<and>
      http_body (fst (detect_faces dec cfg azure b))
        = JObj [(''error'', JStr ''Either imageUrl or imageData is required'')] \<and>
      snd (detect_faces dec cfg azure b) = []) \<and>
   (truthy_str (imageUrl b) \<and> truthy_str (imageData b) \<longrightarrow>
      (\<exists>u. imageUrl b = Some u \<and>
           detect_faces dec cfg azure b = send azure (url_request cfg u) \<and>
           snd (detect_faces dec cfg azure b) = [url_request cfg u]))"
proof (intro conjI impI)
  assume "\<not> truthy_str (imageUrl b) \<and> \<not> truthy_str (imageData b)"
  then have eq: "detect_faces dec cfg azure b
      = (bad_request ''Either imageUrl or imageData is required'', [])"
    by (simp add: detect_faces_neither)
  show "http_status (fst (detect_faces dec cfg azure b)) = 400"
    by (simp add: eq bad_request_def)
  show "http_body (fst (detect_faces dec cfg azure b))
      = JObj [(''error'', JStr ''Either imageUrl or imageData is required'')]"
    by (simp add: eq bad_request_def)
  show "snd (detect_faces dec cfg azure b) = []"
    by (simp add: eq)
next
  assume "truthy_str (imageUrl b) \<and> truthy_str (imageData b)"
  then obtain u where u: "imageUrl b = Some u" "u \<noteq> []"
    by (cases "imageUrl b") auto
  then show "\<exists>u. imageUrl b = Some u \<and>
           detect_faces dec cfg azure b = send azure (url_request cfg u) \<and>
           snd (detect_faces dec cfg azure b) = [url_request cfg u]"
    by (simp add: detect_faces_url snd_send)
qed

theorem neither_rejected_both_forwarded_witness:
  "\<not> truthy_str None \<and> \<not> truthy_str (Some []) \<and>
   http_status (fst (detect_faces base64_decode example_config (resolves one_face_json)
       \<lparr>imageUrl = None, imageData = Some []\<rparr>)) = 400 \<and>
   snd (detect_faces base64_decode example_config (resolves one_face_json)
       \<lparr>imageUrl = None, imageData = Some []\<rparr>) = [] \<and>
   truthy_str (Some ''https://example.com/a.jpg'') \<and> truthy_str (Some ''QUJD'') \<and>
   snd (detect_faces base64_decode example_config (resolves one_face_json)
       \<lparr>imageUrl = Some ''https://example.com/a.jpg'', imageData = Some ''QUJD''\<rparr>)
     = [url_request example_config ''https://example.com/a.jpg'']"
  using neither_rejected_both_forwarded [of "\<lparr>imageUrl = None, imageData = Some []\<rparr>"
      base64_decode example_config "resolves one_face_json"]
    neither_rejected_both_forwarded
      [of "\<lparr>imageUrl = Some ''https://example.com/a.jpg'', imageData = Some ''QUJD''\<rparr>"
      base64_decode example_config "resolves one_face_json"]
  by (simp add: snd_send)

text \<open>
  Claim C2 as stated has the proxy reject a request that supplies both forms. Here both
  are present, the external service is called with the URL, and the answer is 200.
\<close>

theorem neither_or_both_counterexample:
  "truthy_str (Some ''https://example.com/group.png'') \<and>
   truthy_str (Some ''data:image/png;base64,iVBORw0KGgo='') \<and>
   detect_faces base64_decode example_config (resolves (JArr []))
       \<lparr>imageUrl = Some ''https://example.com/group.png'',
        imageData = Some ''data:image/png;base64,iVBORw0KGgo=''\<rparr>
     = (\<lparr>http_status = 200, http_body = JArr []\<rparr>,
        [url_request example_config ''https://example.com/group.png''])"
  by (simp add: detect_faces_def send_def resolves_def)

text \<open>
  Claim C10. A request with a non-empty \<open>imageUrl\<close> sends exactly one request, whose body
  refers to the URL; the outcome does not depend on \<open>imageData\<close> nor on the decoder, so the
  inline data is neither decoded nor measured, and a request with both fields is forwarded.
\<close>

theorem url_path_unconditional:
  assumes "imageUrl b = Some u" and "u \<noteq> []"
  shows "detect_faces dec cfg azure b = send azure (url_request cfg u) \<and>
    snd (detect_faces dec cfg azure b) = [url_request cfg u] \<and>
    data (url_request cfg u) = JsonData (JObj [(''url'', JStr u)]) \<and>
    detect_faces dec' cfg azure (b\<lparr>imageData := x\<rparr>) = detect_faces dec cfg azure b"
proof -
  have "imageUrl (b\<lparr>imageData := x\<rparr>) = Some u"
    using assms(1) by simp
  then have "detect_faces dec' cfg azure (b\<lparr>imageData := x\<rparr>) = send azure (url_request cfg u)"
    using assms(2) by (rule detect_faces_url)
  then show ?thesis
    using assms by (simp add: detect_faces_url snd_send url_request_def)
qed

theorem url_path_unconditional_witness:
  "''https://example.com/face.jpg'' \<noteq> [] \<and>
   snd (detect_faces base64_decode example_config (resolves one_face_json)
       \<lparr>imageUrl = Some ''https://example.com/face.jpg'', imageData = Some ''AA''\<rparr>)
     = [url_request example_config ''https://example.com/face.jpg''] \<and>
   detect_faces (\<lambda>s. []) example_config (resolves one_face_json)
       \<lparr>imageUrl = Some ''https://example.com/face.jpg'', imageData = None\<rparr>
     = detect_faces base64_decode example_config (resolves one_face_json)
       \<lparr>imageUrl = Some ''https://example.com/face.jpg'', imageData = Some ''AA''\<rparr>"
  using url_path_unconditional
    [of "\<lparr>imageUrl = Some ''https://example.com/face.jpg'', imageData = Some ''AA''\<rparr>"
      "''https://example.com/face.jpg''" base64_decode example_config
      "resolves one_face_json" "\<lambda>s. []" None]
  by (simp add: snd_send)

subsection \<open>Relaying the outcome\<close>

text \<open>
  Claim C5. When the handler has called the external service and the call resolves with
  an array, the proxy answers 200 with that array as the body, unchanged.
\<close>

theorem relay_verbatim:
  assumes "snd (detect_faces dec cfg azure b) = [rc]" and "azure rc = Resolved (JArr fs)"
  shows "fst (detect_faces dec cfg azure b) = \<lparr>http_status = 200, http_body = JArr fs\<rparr>"
  using assms(2) by (simp add: detect_faces_sent [OF assms(1)] send_def)

theorem relay_verbatim_witness:
  "snd (detect_faces base64_decode example_config (resolves one_face_json)
       \<lparr>imageUrl = Some ''https://example.com/face.jpg'', imageData = None\<rparr>)
     = [url_request example_config ''https://example.com/face.jpg''] \<and>
   resolves one_face_json (url_request example_config ''https://example.com/face.jpg'')
     = Resolved one_face_json \<and>
   fst (detect_faces base64_decode example_config (resolves one_face_json)
       \<lparr>imageUrl = Some ''https://example.com/face.jpg'', imageData = None\<rparr>)
     = \<lparr>http_status = 200, http_body = one_face_json\<rparr>"
proof -
  let ?b = "\<lparr>imageUrl = Some ''https://example.com/face.jpg'', imageData = None\<rparr>"
  let ?rc = "url_request example_config ''https://example.com/face.jpg''"
  have sent: "snd (detect_faces base64_decode example_config (resolves one_face_json) ?b) = [?rc]"
    by (simp add: detect_faces_def send_def resolves_def)
  have res: "resolves one_face_json ?rc = Resolved one_face_json"
    by (simp add: resolves_def)
  from relay_verbatim [OF sent, of "[JObj [(''faceRectangle'',
             JObj [(''left'', JNum 10), (''top'', JNum 20), (''width'', JNum 100), (''height'', JNum 120)])]]"]
  have "fst (detect_faces base64_decode example_config (resolves one_face_json) ?b)
      = \<lparr>http_status = 200, http_body = one_face_json\<rparr>"
    by (simp add: resolves_def one_face_json_def)
  with sent res show ?thesis by simp
qed

lemma suggestion_for_table:
  "suggestion_for c =
     (case c of JStr k \<Rightarrow> (case map_of spec_suggestions k of Some t \<Rightarrow> t | None \<Rightarrow> []) | _ \<Rightarrow> [])"
  by (cases c) (simp_all add: suggestion_for_def spec_suggestions_def)

lemma catch_reply_message:
  "first_truthy [get_prop (get_prop (map_option resp_data (response e)) ''error'') ''message'',
       get_prop (map_option resp_data (response e)) ''message'',
       Some (JStr (message e)), Some (JStr ''Face detection failed'')]
   = Some (or_lit
       (or_else (get_prop (get_prop (map_option resp_data (response e)) ''error'') ''message'')
          (or_else (get_prop (map_option resp_data (response e)) ''message'') (Some (JStr (message e)))))
       (JStr ''Face detection failed''))"
  (is "first_truthy [?a, ?b, ?c, ?d] = _")
proof (cases ?a)
  case None
  then show ?thesis by (cases ?b) auto
next
  case (Some v)
  then show ?thesis by (cases ?b) auto
qed

text \<open>
  Claim C6. When the call is rejected, the status is the external one when there is a
  response (with a positive status) and 500 otherwise; the body carries the first truthy of
  the external error message, the external message, the error's own message and a fixed
  text; the external error code, or \<open>Unknown\<close> without one; the suggestion the table gives for
  that code, empty for any other code; and the external response body as \<open>details\<close>.
\<close>

theorem failure_reply:
  assumes "snd (detect_faces dec cfg azure b) = [rc]" and "azure rc = Rejected e"
  shows "\<exists>m c.
     fst (detect_faces dec cfg azure b) =
       \<lparr>http_status =
          (case response e of
             None \<Rightarrow> 500
           | Some r \<Rightarrow> if 0 < resp_status r then resp_status r else 500),
        http_body =
          JObj ([(''error'', m), (''code'', c),
                 (''suggestion'', JStr
                    (case c of
                       JStr k \<Rightarrow> (case map_of spec_suggestions k of Some t \<Rightarrow> t | None \<Rightarrow> [])
                     | _ \<Rightarrow> []))]
                @ (case response e of None \<Rightarrow> [] | Some r \<Rightarrow> [(''details'', resp_data r)]))\<rparr> \<and>
     Some m = first_truthy
       [get_prop (get_prop (map_option resp_data (response e)) ''error'') ''message'',
        get_prop (map_option resp_data (response e)) ''message'',
        Some (JStr (message e)), Some (JStr ''Face detection failed'')] \<and>
     Some c = first_truthy
       [get_prop (get_prop (map_option resp_data (response e)) ''error'') ''code'',
        Some (JStr ''Unknown'')]"
proof -
  have "fst (detect_faces dec cfg azure b) = catch_reply e"
    using assms(2) by (simp add: detect_faces_sent [OF assms(1)] send_def)
  moreover have "Some (or_lit x (JStr ''Unknown'')) = first_truthy [x, Some (JStr ''Unknown'')]" for x
    by (cases x) auto
  ultimately show ?thesis
    unfolding catch_reply_message
    by (cases "response e") (simp_all add: catch_reply_def Let_def suggestion_for_table)
qed

theorem failure_reply_witness:
  "snd (detect_faces base64_decode example_config (rejects unauthorized_error)
       \<lparr>imageUrl = Some ''https://example.com/face.jpg'', imageData = None\<rparr>)
     = [url_request example_config ''https://example.com/face.jpg''] \<and>
   rejects unauthorized_error (url_request example_config ''https://example.com/face.jpg'')
     = Rejected unauthorized_error \<and>
   fst (detect_faces base64_decode example_config (rejects unauthorized_error)
       \<lparr>imageUrl = Some ''https://example.com/face.jpg'', imageData = None\<rparr>)
     = \<lparr>http_status = 401,
        http_body = JObj [(''error'', JStr ''Access denied''), (''code'', JStr ''Unauthorized''),
          (''suggestion'', JStr ''Invalid API key. Please check your Azure subscription key.''),
          (''details'', JObj [(''error'',
              JObj [(''code'', JStr ''Unauthorized''), (''message'', JStr ''Access denied'')])])]\<rparr>"
proof -
  let ?b = "\<lparr>imageUrl = Some ''https://example.com/face.jpg'', imageData = None\<rparr>"
  let ?rc = "url_request example_config ''https://example.com/face.jpg''"
  have sent: "snd (detect_faces base64_decode example_config (rejects unauthorized_error) ?b) = [?rc]"
    by (simp add: detect_faces_def send_def rejects_def)
  have rej: "rejects unauthorized_error ?rc = Rejected unauthorized_error"
    by (simp add: rejects_def)
  from failure_reply [OF sent rej] sent rej show ?thesis
    by (auto simp: unauthorized_error_def spec_suggestions_def)
qed

subsection \<open>Startup\<close>

text \<open>
  Claim C7. When the endpoint or the key is undefined or empty, the process exits with
  code 1 and answers no request. Otherwise it listens with exactly the two values read at
  startup, both non-empty, and every request is handled with them.
\<close>

theorem startup_refuses:
  "(\<not> truthy_str (e ''AZURE_FACE_ENDPOINT'') \<or> \<not> truthy_str (e ''AZURE_FACE_KEY'') \<longrightarrow>
      startup e = Exited 1 \<and> serve dec e azure reqs = (Exited 1, [])) \<and>
   (truthy_str (e ''AZURE_FACE_ENDPOINT'') \<and> truthy_str (e ''AZURE_FACE_KEY'') \<longrightarrow>
      (\<exists>cfg. startup e = Listening cfg \<and>
         e ''AZURE_FACE_ENDPOINT'' = Some (AZURE_ENDPOINT cfg) \<and> AZURE_ENDPOINT cfg \<noteq> [] \<and>
         e ''AZURE_FACE_KEY'' = Some (AZURE_KEY cfg) \<and> AZURE_KEY cfg \<noteq> [] \<and>
         serve dec e azure reqs = (Listening cfg, map (detect_faces dec cfg azure) reqs)))"
proof (cases "e ''AZURE_FACE_ENDPOINT''")
  case None
  then show ?thesis by (simp add: startup_def serve_def)
next
  case ep: (Some ep)
  show ?thesis
  proof (cases "e ''AZURE_FACE_KEY''")
    case None
    with ep show ?thesis by (simp add: startup_def serve_def)
  next
    case (Some k)
    with ep show ?thesis by (auto simp: startup_def serve_def)
  qed
qed

theorem startup_refuses_witness:
  "\<not> truthy_str ([''AZURE_FACE_ENDPOINT'' \<mapsto> ''https://vision.example.com/''] ''AZURE_FACE_KEY'') \<and>
   serve base64_decode [''AZURE_FACE_ENDPOINT'' \<mapsto> ''https://vision.example.com/'']
       (resolves one_face_json) [\<lparr>imageUrl = Some ''https://example.com/face.jpg'', imageData = None\<rparr>]
     = (Exited 1, []) \<and>
   truthy_str (example_env ''AZURE_FACE_ENDPOINT'') \<and> truthy_str (example_env ''AZURE_FACE_KEY'') \<and>
   serve base64_decode example_env (resolves one_face_json)
       [\<lparr>imageUrl = Some ''https://example.com/face.jpg'', imageData = None\<rparr>]
     = (Listening example_config,
        [(\<lparr>http_status = 200, http_body = one_face_json\<rparr>,
          [url_request example_config ''https://example.com/face.jpg''])])"
proof -
  let ?reqs = "[\<lparr>imageUrl = Some ''https://example.com/face.jpg'', imageData = None\<rparr>]"
  from startup_refuses [of "[''AZURE_FACE_ENDPOINT'' \<mapsto> ''https://vision.example.com/'']"
      base64_decode "resolves one_face_json" ?reqs]
  have off: "serve base64_decode [''AZURE_FACE_ENDPOINT'' \<mapsto> ''https://vision.example.com/'']
       (resolves one_face_json) ?reqs = (Exited 1, [])"
    by simp
  from startup_refuses [of example_env base64_decode "resolves one_face_json" ?reqs]
  obtain cfg where cfg: "example_env ''AZURE_FACE_ENDPOINT'' = Some (AZURE_ENDPOINT cfg)"
      "example_env ''AZURE_FACE_KEY'' = Some (AZURE_KEY cfg)"
      "startup example_env = Listening cfg"
      "serve base64_decode example_env (resolves one_face_json) ?reqs
        = (Listening cfg, map (detect_faces base64_decode cfg (resolves one_face_json)) ?reqs)"
    by (auto simp: example_env_def)
  from cfg(3) have "cfg = example_config"
    by (simp add: startup_def example_env_def example_config_def)
  with cfg(4) off show ?thesis
    by (simp add: example_env_def detect_faces_def send_def resolves_def one_face_json_def)
qed


section \<open>Properties of the client\<close>

subsection \<open>Rectangles and labels\<close>













subsection \<open>No faces\<close>

text \<open>
  Stopping the camera leaves the capture canvas as it is.
\<close>

lemma stopCamera_canvas: "captureCanvas (snd (stopCamera snap (st, w))) = captureCanvas w"
  by (simp add: stopCamera_def split: option.splits)

lemma stopCamera_mui_canvas: "captureCanvas (snd (stopCamera_mui snap (st, w))) = captureCanvas w"
  by (simp add: stopCamera_mui_def split: option.splits)

lemma after_post_outcome:
  "first_variant_outcome notice img has_canvas (after_post notice (PostOk []) st)"
  by (simp add: first_variant_outcome_def after_post_def drawFaceBoxes_def split: option.splits)

lemma apiPostDetect_outcome:
  "post pf b = PostOk [] \<Longrightarrow> second_variant_outcome m dpr i (apiPostDetect pf b st)"
  by (simp add: second_variant_outcome_def apiPostDetect_def render_def Let_def)

lemma second_variant_outcome_loading:
  "second_variant_outcome m dpr i st \<Longrightarrow> second_variant_outcome m dpr i (st\<lparr>loading := False\<rparr>)"
  by (simp add: second_variant_outcome_def render_def Let_def)

lemma handleUrlSubmit_result:
  "trim (imageUrl_state snap) \<noteq> [] \<Longrightarrow>
   fst (handleUrlSubmit snap pf (st, w)) =
     after_post ''No faces detected in the image'' (post pf (ImageUrl (imageUrl_state snap)))
       (fst (stopCamera snap (st\<lparr>error := None, loading := True,
          imagePreview := Some (imageUrl_state snap)\<rparr>, w)))"
  by (simp add: handleUrlSubmit_def Let_def split_beta)

lemma handleFileUpload_result:
  "fst (handleFileUpload snap pf (Some d) (st, w)) =
     after_post ''No faces detected in the image'' (post pf (ImageData d))
       ((fst (stopCamera snap (st, w)))\<lparr>error := None, loading := True, imagePreview := Some d\<rparr>)"
  by (simp add: handleFileUpload_def Let_def split_beta)

lemma capturePhoto_outcome:
  assumes "videoRef w = Some v"
    and "post pf (ImageData (toDataURL pf (captureCanvas (snd (capturePhoto snap pf (st, w))))))
      = PostOk []"
  shows "first_variant_outcome ''No faces detected in the photo'' img has_canvas
    (fst (capturePhoto snap pf (st, w)))"
proof -
  let ?c1 = "set_height (videoHeight v) (set_width (videoWidth v) (captureCanvas w))"
  let ?c2 = "drawImage v (- int (cwidth ?c1)) 0 (int (cwidth ?c1)) (int (cheight ?c1))
          (ctx_scale (- 1) 1 ?c1)"
  let ?d = "toDataURL pf ?c2"
  let ?p = "stopCamera snap (st\<lparr>loading := True, error := None, imagePreview := Some ?d\<rparr>,
                            w\<lparr>captureCanvas := ?c2\<rparr>)"
  have eq: "capturePhoto snap pf (st, w) =
      (after_post ''No faces detected in the photo'' (post pf (ImageData ?d)) (fst ?p), snd ?p)"
    using assms(1) by (simp add: capturePhoto_def Let_def split_beta)
  then have "captureCanvas (snd (capturePhoto snap pf (st, w))) = ?c2"
    by (simp add: stopCamera_canvas)
  with assms(2) have "post pf (ImageData ?d) = PostOk []"
    by simp
  then show ?thesis
    by (simp add: eq after_post_outcome)
qed

lemma handleUrlSubmit_mui_result:
  "trim (imageUrl_state snap) \<noteq> [] \<Longrightarrow>
   fst (handleUrlSubmit_mui snap pf (st, w)) =
     apiPostDetect pf (ImageUrl (imageUrl_state snap))
       ((fst (stopCamera_mui snap (st, w)))\<lparr>imagePreview := Some (imageUrl_state snap)\<rparr>)"
  by (simp add: handleUrlSubmit_mui_def Let_def split_beta)

lemma handleFileUpload_mui_result:
  "fst (handleFileUpload_mui snap pf (Some d) (st, w)) =
     apiPostDetect pf (ImageData d)
       ((fst (stopCamera_mui snap (st, w)))\<lparr>error := None, imagePreview := Some d\<rparr>)"
  by (simp add: handleFileUpload_mui_def Let_def split_beta)

lemma capturePhoto_mui_outcome:
  assumes "videoRef w = Some v"
    and "post pf (ImageData (toDataURL pf (captureCanvas (snd (capturePhoto_mui snap pf (st, w))))))
      = PostOk []"
  shows "second_variant_outcome m dpr i (fst (capturePhoto_mui snap pf (st, w)))"
proof -
  let ?c1 = "set_height (or_nat (videoHeight v) 720)
             (set_width (or_nat (videoWidth v) 1280) (captureCanvas w))"
  let ?c2 = "ctx_restore (drawImage v (- int (cwidth ?c1)) 0 (int (cwidth ?c1)) (int (cheight ?c1))
          (ctx_scale (- 1) 1 (ctx_save ?c1)))"
  let ?d = "toDataURL pf ?c2"
  let ?p = "stopCamera_mui snap (st\<lparr>loading := True, error := None, imagePreview := Some ?d\<rparr>,
                            w\<lparr>captureCanvas := ?c2\<rparr>)"
  have eq: "capturePhoto_mui snap pf (st, w) =
      ((apiPostDetect pf (ImageData ?d) (fst ?p))\<lparr>loading := False\<rparr>, snd ?p)"
    using assms(1) by (simp add: capturePhoto_mui_def Let_def split_beta)
  then have "captureCanvas (snd (capturePhoto_mui snap pf (st, w))) = ?c2"
    by (simp add: stopCamera_mui_canvas)
  with assms(2) have "post pf (ImageData ?d) = PostOk []"
    by simp
  then show ?thesis
    by (simp add: eq apiPostDetect_outcome second_variant_outcome_loading)
qed

text \<open>
  Claim C4, as the code has it. Whenever a detection request that the client makes is
  answered with an empty array, whether it comes from a URL submission (with a URL that
  is not blank), from a file upload or from a camera capture, the client holds an empty
  face list and the notice that no faces were detected: \<open>No faces detected in the image\<close>
  or \<open>in the photo\<close> in the first variant, \<open>No faces detected\<close> in the second. With the state
  so reached, the render of the second variant draws the preview image once and no
  rectangle, while \<open>drawFaceBoxes\<close> of the first variant makes no call on the canvas at all,
  whatever image is loaded.
\<close>

theorem no_faces_notice:
  "(trim (imageUrl_state snap) \<noteq> [] \<and> post pf (ImageUrl (imageUrl_state snap)) = PostOk [] \<longrightarrow>
      first_variant_outcome ''No faces detected in the image'' img has_canvas
        (fst (handleUrlSubmit snap pf (st, w))) \<and>
      second_variant_outcome m dpr i (fst (handleUrlSubmit_mui snap pf (st, w)))) \<and>
   (post pf (ImageData d) = PostOk [] \<longrightarrow>
      first_variant_outcome ''No faces detected in the image'' img has_canvas
        (fst (handleFileUpload snap pf (Some d) (st, w))) \<and>
      second_variant_outcome m dpr i (fst (handleFileUpload_mui snap pf (Some d) (st, w)))) \<and>
   (videoRef w \<noteq> None \<and>
    post pf (ImageData (toDataURL pf (captureCanvas (snd (capturePhoto snap pf (st, w)))))) = PostOk [] \<longrightarrow>
      first_variant_outcome ''No faces detected in the photo'' img has_canvas
        (fst (capturePhoto snap pf (st, w)))) \<and>
   (videoRef w \<noteq> None \<and>
    post pf (ImageData (toDataURL pf (captureCanvas (snd (capturePhoto_mui snap pf (st, w)))))) = PostOk [] \<longrightarrow>
      second_variant_outcome m dpr i (fst (capturePhoto_mui snap pf (st, w))))"
proof (intro conjI impI)
  assume a: "trim (imageUrl_state snap) \<noteq> [] \<and> post pf (ImageUrl (imageUrl_state snap)) = PostOk []"
  then show "first_variant_outcome ''No faces detected in the image'' img has_canvas
        (fst (handleUrlSubmit snap pf (st, w)))"
    by (simp add: handleUrlSubmit_result after_post_outcome)
  from a show "second_variant_outcome m dpr i (fst (handleUrlSubmit_mui snap pf (st, w)))"
    by (simp add: handleUrlSubmit_mui_result apiPostDetect_outcome)
next
  assume a: "post pf (ImageData d) = PostOk []"
  then show "first_variant_outcome ''No faces detected in the image'' img has_canvas
        (fst (handleFileUpload snap pf (Some d) (st, w)))"
    by (simp add: handleFileUpload_result after_post_outcome)
  from a show "second_variant_outcome m dpr i (fst (handleFileUpload_mui snap pf (Some d) (st, w)))"
    by (simp add: handleFileUpload_mui_result apiPostDetect_outcome)
next
  assume a: "videoRef w \<noteq> None \<and>
    post pf (ImageData (toDataURL pf (captureCanvas (snd (capturePhoto snap pf (st, w)))))) = PostOk []"
  then obtain v where "videoRef w = Some v" by auto
  with a show "first_variant_outcome ''No faces detected in the photo'' img has_canvas
        (fst (capturePhoto snap pf (st, w)))"
    by (simp add: capturePhoto_outcome)
next
  assume a: "videoRef w \<noteq> None \<and>
    post pf (ImageData (toDataURL pf (captureCanvas (snd (capturePhoto_mui snap pf (st, w)))))) = PostOk []"
  then obtain v where "videoRef w = Some v" by auto
  with a show "second_variant_outcome m dpr i (fst (capturePhoto_mui snap pf (st, w)))"
    by (simp add: capturePhoto_mui_outcome)
qed

theorem no_faces_notice_witness:
  "trim (units ''https://example.com/landscape.jpg'') \<noteq> [] \<and>
   error (fst (handleUrlSubmit (initial_state\<lparr>imageUrl_state := units ''https://example.com/landscape.jpg''\<rparr>)
       (example_platform (PostOk []) small_feed)
       (initial_state, initial_world\<lparr>videoRef := Some small_feed\<rparr>)))
     = Some ''No faces detected in the image'' \<and>
   error (fst (handleFileUpload (initial_state\<lparr>imageUrl_state := units ''https://example.com/landscape.jpg''\<rparr>)
       (example_platform (PostOk []) small_feed) (Some (units ''data:image/png;base64,AAAA''))
       (initial_state, initial_world\<lparr>videoRef := Some small_feed\<rparr>)))
     = Some ''No faces detected in the image'' \<and>
   error (fst (capturePhoto (initial_state\<lparr>imageUrl_state := units ''https://example.com/landscape.jpg''\<rparr>)
       (example_platform (PostOk []) small_feed)
       (initial_state, initial_world\<lparr>videoRef := Some small_feed\<rparr>)))
     = Some ''No faces detected in the photo'' \<and>
   drawFaceBoxes (fst (capturePhoto (initial_state\<lparr>imageUrl_state := units ''https://example.com/landscape.jpg''\<rparr>)
       (example_platform (PostOk []) small_feed)
       (initial_state, initial_world\<lparr>videoRef := Some small_feed\<rparr>))) (Some loaded_image) True
     = ([], True) \<and>
   error (fst (handleFileUpload_mui (initial_state\<lparr>imageUrl_state := units ''https://example.com/landscape.jpg''\<rparr>)
       (example_platform (PostOk []) small_feed) (Some (units ''data:image/png;base64,AAAA''))
       (initial_state, initial_world\<lparr>videoRef := Some small_feed\<rparr>)))
     = Some ''No faces detected'' \<and>
   render Dark 1 (fst (handleUrlSubmit_mui (initial_state\<lparr>imageUrl_state := units ''https://example.com/landscape.jpg''\<rparr>)
       (example_platform (PostOk []) small_feed)
       (initial_state, initial_world\<lparr>videoRef := Some small_feed\<rparr>))) loaded_image
     = [CanvasSize 640 480, SetTransform 1, ClearRect 0 0 640 480, DrawImage 0 0 640 480] \<and>
   render Dark 1 (fst (capturePhoto_mui (initial_state\<lparr>imageUrl_state := units ''https://example.com/landscape.jpg''\<rparr>)
       (example_platform (PostOk []) small_feed)
       (initial_state, initial_world\<lparr>videoRef := Some small_feed\<rparr>))) loaded_image
     = [CanvasSize 640 480, SetTransform 1, ClearRect 0 0 640 480, DrawImage 0 0 640 480]"
proof -
  let ?snap = "initial_state\<lparr>imageUrl_state := units ''https://example.com/landscape.jpg''\<rparr>"
  let ?pf = "example_platform (PostOk []) small_feed"
  let ?w = "initial_world\<lparr>videoRef := Some small_feed\<rparr>"
  have t: "trim (imageUrl_state ?snap) \<noteq> []"
    by (simp add: trim_def is_space_def units_def)
  have r: "post ?pf b = PostOk []" for b
    by (simp add: example_platform_def)
  have v: "videoRef ?w \<noteq> None"
    by simp
  from no_faces_notice [of ?snap ?pf "Some loaded_image" True initial_state ?w Dark 1 loaded_image
      "units ''data:image/png;base64,AAAA''"] t r v
  show ?thesis
    by (simp add: first_variant_outcome_def second_variant_outcome_def or_nat_def loaded_image_def)
qed

text \<open>
  Claim C4 as stated has the render step draw the preview image when no face was found.
  In the first variant, with the image loaded and the canvas attached, \<open>drawFaceBoxes\<close>
  returns at \<open>faces.length === 0\<close> before \<open>drawImage\<close>.
\<close>

theorem no_faces_counterexample:
  "faces (fst (run (example_platform (PostOk []) blank_video)
       [EditUrl (units ''https://example.com/landscape.jpg''), SubmitUrl]
       (initial_state, initial_world))) = [] \<and>
   imagePreview (fst (run (example_platform (PostOk []) blank_video)
       [EditUrl (units ''https://example.com/landscape.jpg''), SubmitUrl]
       (initial_state, initial_world)))
     = Some (units ''https://example.com/landscape.jpg'') \<and>
   drawFaceBoxes (fst (run (example_platform (PostOk []) blank_video)
       [EditUrl (units ''https://example.com/landscape.jpg''), SubmitUrl]
       (initial_state, initial_world)))
       (Some loaded_image) True = ([], True) \<and>
   images_drawn (fst (drawFaceBoxes (fst (run (example_platform (PostOk []) blank_video)
       [EditUrl (units ''https://example.com/landscape.jpg''), SubmitUrl]
       (initial_state, initial_world)))
       (Some loaded_image) True)) = 0"
proof -
  let ?u = "units ''https://example.com/landscape.jpg''"
  let ?r = "run (example_platform (PostOk []) blank_video) [EditUrl ?u, SubmitUrl]
       (initial_state, initial_world)"
  have t: "trim ?u \<noteq> []"
    by (simp add: trim_def is_space_def units_def)
  have st: "fst ?r = initial_state\<lparr>imageUrl_state := ?u, imagePreview := Some ?u,
      error := Some ''No faces detected in the image''\<rparr>"
    using t
    by (simp add: run_def rerender_def handleUrlSubmit_def stopCamera_def after_post_def
        initial_state_def example_platform_def Let_def)
  show ?thesis
    unfolding st by (simp add: initial_state_def drawFaceBoxes_def)
qed

subsection \<open>Releasing the camera\<close>

lemma stop_tracks_apply: "stop_tracks s ts t = (if t \<in> set s then Ended else ts t)"
  unfolding stop_tracks_def by (induction s arbitrary: ts) auto

text \<open>
  The handlers of the latest render stop every track of the stream: explicit stop, capture,
  URL submission and file upload, in both variants.
\<close>

lemma live_handlers_stop_tracks:
  assumes "cameraStream st = Some s" and "t \<in> set s"
  shows "tracks (snd (stopCamera st (st, w))) t = Ended"
    and "videoRef w \<noteq> None \<Longrightarrow> tracks (snd (capturePhoto st pf (st, w))) t = Ended"
    and "trim (imageUrl_state st) \<noteq> [] \<Longrightarrow> tracks (snd (handleUrlSubmit st pf (st, w))) t = Ended"
    and "tracks (snd (handleFileUpload st pf (Some d) (st, w))) t = Ended"
    and "tracks (snd (stopCamera_mui st (st, w))) t = Ended"
    and "videoRef w \<noteq> None \<Longrightarrow> tracks (snd (capturePhoto_mui st pf (st, w))) t = Ended"
    and "trim (imageUrl_state st) \<noteq> [] \<Longrightarrow> tracks (snd (handleUrlSubmit_mui st pf (st, w))) t = Ended"
    and "tracks (snd (handleFileUpload_mui st pf (Some d) (st, w))) t = Ended"
  using assms
  by (auto simp: stopCamera_def stopCamera_mui_def capturePhoto_def capturePhoto_mui_def
      handleUrlSubmit_def handleUrlSubmit_mui_def handleFileUpload_def handleFileUpload_mui_def
      Let_def split_beta stop_tracks_apply)

text \<open>
  The cleanup on teardown never touches a track.
\<close>

lemma unmount_keeps_tracks:
  "tracks (snd (unmount (st, w))) = tracks w" "tracks (snd (unmount_mui (st, w))) = tracks w"
  by (simp_all add: unmount_def unmount_mui_def stopCamera_def stopCamera_mui_def
      initial_state_def clear_source_def)


text \<open>
  Claim C8 at a concrete run. The camera is started and hands out track 0. After an
  explicit stop the track has ended. After teardown instead, the track is still live, in
  both variants: the cleanup calls the \<open>stopCamera\<close> of the first render, which sees no stream.
\<close>

theorem teardown_leaves_track_live:
  "tracks (snd (run (example_platform (PostOk []) small_feed) [ClickStart (Granted [0])]
       (initial_state, initial_world))) 0 = Live \<and>
   tracks (snd (run (example_platform (PostOk []) small_feed) [ClickStart (Granted [0]), ClickStop]
       (initial_state, initial_world))) 0 = Ended \<and>
   tracks (snd (run (example_platform (PostOk []) small_feed) [ClickStart (Granted [0]), Unmount]
       (initial_state, initial_world))) 0 = Live \<and>
   tracks (snd (run_mui (example_platform (PostOk []) small_feed) [ClickStart (Granted [0]), ClickStop]
       (initial_state, initial_world_mui))) 0 = Ended \<and>
   tracks (snd (run_mui (example_platform (PostOk []) small_feed) [ClickStart (Granted [0]), Unmount]
       (initial_state, initial_world_mui))) 0 = Live"
  by (simp add: run_def run_mui_def startCamera_def startCamera_mui_def rerender_def
      stopCamera_def stopCamera_mui_def unmount_def unmount_mui_def initial_state_def
      initial_world_def initial_world_mui_def start_tracks_def stop_tracks_def
      example_platform_def clear_source_def)

subsection \<open>The captured photo\<close>

lemma source_index_flip:
  assumes "0 < w" and "X < w"
  shows "source_index (- 1) (- int w) (int w) w X = int w - 1 - int X"
proof -
  have "((2 * int X + 1 - 2 * (- int w) * (- 1)) * int w) div (2 * int w * (- 1))
      = ((2 * int w - 2 * int X - 1) * int w) div (2 * int w)"
  proof -
    have "(2 * int X + 1 - 2 * (- int w) * (- 1)) * int w = - ((2 * int w - 2 * int X - 1) * int w)"
      by (simp add: algebra_simps)
    moreover have "2 * int w * (- 1) = - (2 * int w)" by simp
    ultimately show ?thesis by (simp only: div_minus_minus)
  qed
  also have "\<dots> = (2 * int w - 2 * int X - 1) div 2"
    using assms(1) by simp
  also have "\<dots> = int w - 1 - int X"
    by linarith
  finally show ?thesis by (simp add: source_index_def)
qed

lemma source_index_same:
  assumes "0 < h"
  shows "source_index 1 0 (int h) h Y = int Y"
proof -
  have "((2 * int Y + 1) * int h) div (2 * int h) = (2 * int Y + 1) div 2"
    using assms by simp
  then show ?thesis by (simp add: source_index_def)
qed

lemma drawImage_mirror:
  assumes wf: "wf_video v" and w: "0 < videoWidth v" and h: "0 < videoHeight v"
    and c: "cwidth c = videoWidth v" "cheight c = videoHeight v" "scale_x c = - 1" "scale_y c = 1"
  shows "bitmap (drawImage v (- int (videoWidth v)) 0 (int (videoWidth v)) (int (videoHeight v)) c)
    = mirror (frame v)"
proof (rule nth_equalityI)
  let ?d = "drawImage v (- int (videoWidth v)) 0 (int (videoWidth v)) (int (videoHeight v)) c"
  have len: "length (frame v) = videoHeight v"
    and rows: "\<And>r. r < videoHeight v \<Longrightarrow> length (frame v ! r) = videoWidth v"
    using wf by (auto simp: wf_video_def list_all_length)
  have bm: "bitmap ?d = map (\<lambda>Y. map (\<lambda>X.
        let i = source_index (- 1) (- int (videoWidth v)) (int (videoWidth v)) (videoWidth v) X;
            j = source_index 1 0 (int (videoHeight v)) (videoHeight v) Y
        in if 0 \<le> i \<and> i < int (videoWidth v) \<and> 0 \<le> j \<and> j < int (videoHeight v)
           then Some (frame v ! nat j ! nat i) else bitmap c ! Y ! X)
      [0..<videoWidth v]) [0..<videoHeight v]"
    using w h c by (simp add: drawImage_def)
  show "length (bitmap ?d) = length (mirror (frame v))"
    by (simp add: bm mirror_def len)
  fix Y assume "Y < length (bitmap ?d)"
  then have Y: "Y < videoHeight v" by (simp add: bm)
  show "bitmap ?d ! Y = mirror (frame v) ! Y"
  proof (rule nth_equalityI)
    show "length (bitmap ?d ! Y) = length (mirror (frame v) ! Y)"
      using Y by (simp add: bm mirror_def len rows)
    fix X assume "X < length (bitmap ?d ! Y)"
    then have X: "X < videoWidth v" using Y by (simp add: bm)
    have "bitmap ?d ! Y ! X = Some (frame v ! Y ! (videoWidth v - Suc X))"
      using X Y w h
      by (simp add: bm source_index_flip source_index_same Let_def nat_diff_distrib')
    also have "\<dots> = mirror (frame v) ! Y ! X"
      using X Y by (simp add: mirror_def len rows rev_nth)
    finally show "bitmap ?d ! Y ! X = mirror (frame v) ! Y ! X" .
  qed
qed

lemma capture_canvas_prepared:
  "cwidth (ctx_scale (- 1) 1 (set_height h (set_width w c))) = w \<and>
   cheight (ctx_scale (- 1) 1 (set_height h (set_width w c))) = h \<and>
   scale_x (ctx_scale (- 1) 1 (set_height h (set_width w c))) = - 1 \<and>
   scale_y (ctx_scale (- 1) 1 (set_height h (set_width w c))) = 1"
  by (simp add: ctx_scale_def set_height_def set_width_def)

lemma drawImage_size:
  "cwidth (drawImage v dx dy dw dh c) = cwidth c \<and> cheight (drawImage v dx dy dw dh c) = cheight c"
  by (simp add: drawImage_def)

lemma stopCamera_preview: "imagePreview (fst (stopCamera snap (st, w))) = imagePreview st"
  by (simp add: stopCamera_def split: option.splits)

lemma stopCamera_mui_preview: "imagePreview (fst (stopCamera_mui snap (st, w))) = imagePreview st"
  by (simp add: stopCamera_mui_def split: option.splits)

lemma after_post_preview: "imagePreview (after_post n r st) = imagePreview st"
  by (simp add: after_post_def split: post_result.splits)

lemma apiPostDetect_preview: "imagePreview (apiPostDetect pf b st) = imagePreview st"
  by (simp add: apiPostDetect_def Let_def split: post_result.splits)

lemma capturePhoto_canvas:
  assumes "videoRef w = Some v"
  shows "captureCanvas (snd (capturePhoto snap pf (st, w)))
      = drawImage v (- int (videoWidth v)) 0 (int (videoWidth v)) (int (videoHeight v))
          (ctx_scale (- 1) 1 (set_height (videoHeight v) (set_width (videoWidth v) (captureCanvas w))))"
    and "imagePreview (fst (capturePhoto snap pf (st, w)))
      = Some (toDataURL pf (captureCanvas (snd (capturePhoto snap pf (st, w)))))"
proof -
  let ?c1 = "set_height (videoHeight v) (set_width (videoWidth v) (captureCanvas w))"
  have sz: "cwidth ?c1 = videoWidth v" "cheight ?c1 = videoHeight v"
    by (simp_all add: set_height_def set_width_def)
  let ?c2 = "drawImage v (- int (videoWidth v)) 0 (int (videoWidth v)) (int (videoHeight v))
          (ctx_scale (- 1) 1 ?c1)"
  let ?d = "toDataURL pf ?c2"
  let ?p = "stopCamera snap (st\<lparr>loading := True, error := None, imagePreview := Some ?d\<rparr>,
                            w\<lparr>captureCanvas := ?c2\<rparr>)"
  have eq: "capturePhoto snap pf (st, w) =
      (after_post ''No faces detected in the photo''
         (post pf (ImageData ?d)) (fst ?p), snd ?p)"
    using assms by (simp add: capturePhoto_def Let_def sz split_beta)
  show c: "captureCanvas (snd (capturePhoto snap pf (st, w))) = ?c2"
    by (simp add: eq stopCamera_canvas)
  show "imagePreview (fst (capturePhoto snap pf (st, w)))
      = Some (toDataURL pf (captureCanvas (snd (capturePhoto snap pf (st, w)))))"
    unfolding c by (simp add: eq after_post_preview stopCamera_preview)
qed

lemma capturePhoto_mui_canvas:
  assumes "videoRef w = Some v"
  shows "captureCanvas (snd (capturePhoto_mui snap pf (st, w)))
      = ctx_restore (drawImage v (- int (or_nat (videoWidth v) 1280)) 0
          (int (or_nat (videoWidth v) 1280)) (int (or_nat (videoHeight v) 720))
          (ctx_scale (- 1) 1 (ctx_save (set_height (or_nat (videoHeight v) 720)
             (set_width (or_nat (videoWidth v) 1280) (captureCanvas w))))))"
    and "imagePreview (fst (capturePhoto_mui snap pf (st, w)))
      = Some (toDataURL pf (captureCanvas (snd (capturePhoto_mui snap pf (st, w)))))"
proof -
  let ?c1 = "set_height (or_nat (videoHeight v) 720)
             (set_width (or_nat (videoWidth v) 1280) (captureCanvas w))"
  have sz: "cwidth ?c1 = or_nat (videoWidth v) 1280" "cheight ?c1 = or_nat (videoHeight v) 720"
    by (simp_all add: set_height_def set_width_def)
  let ?c2 = "ctx_restore (drawImage v (- int (or_nat (videoWidth v) 1280)) 0
          (int (or_nat (videoWidth v) 1280)) (int (or_nat (videoHeight v) 720))
          (ctx_scale (- 1) 1 (ctx_save ?c1)))"
  let ?d = "toDataURL pf ?c2"
  let ?p = "stopCamera_mui snap (st\<lparr>loading := True, error := None, imagePreview := Some ?d\<rparr>,
                            w\<lparr>captureCanvas := ?c2\<rparr>)"
  have eq: "capturePhoto_mui snap pf (st, w) =
      ((apiPostDetect pf (ImageData ?d) (fst ?p))\<lparr>loading := False\<rparr>, snd ?p)"
    using assms by (simp add: capturePhoto_mui_def Let_def sz split_beta)
  show c: "captureCanvas (snd (capturePhoto_mui snap pf (st, w))) = ?c2"
    by (simp add: eq stopCamera_mui_canvas)
  show "imagePreview (fst (capturePhoto_mui snap pf (st, w)))
      = Some (toDataURL pf (captureCanvas (snd (capturePhoto_mui snap pf (st, w)))))"
    unfolding c by (simp add: eq apiPostDetect_preview stopCamera_mui_preview)
qed

lemma restore_after_save:
  "bitmap (ctx_restore (drawImage v dx dy dw dh (ctx_scale sx sy (ctx_save c))))
     = bitmap (drawImage v dx dy dw dh (ctx_scale sx sy c)) \<and>
   cwidth (ctx_restore (drawImage v dx dy dw dh (ctx_scale sx sy (ctx_save c)))) = cwidth c \<and>
   cheight (ctx_restore (drawImage v dx dy dw dh (ctx_scale sx sy (ctx_save c)))) = cheight c"
  by (simp add: ctx_restore_def drawImage_def ctx_scale_def ctx_save_def Let_def)

text \<open>
  The second variant sizes the capture canvas by the video, with 1280 for a width of zero
  and 720 for a height of zero.
\<close>

lemma capture_canvas_size_mui:
  assumes "videoRef w = Some v"
  shows "cwidth (captureCanvas (snd (capturePhoto_mui snap pf (st, w)))) = or_nat (videoWidth v) 1280 \<and>
    cheight (captureCanvas (snd (capturePhoto_mui snap pf (st, w)))) = or_nat (videoHeight v) 720"
  by (simp add: capturePhoto_mui_canvas [OF assms] restore_after_save set_height_def set_width_def)

text \<open>
  Claim C9, as the code has it. When the video element shows a frame of non-zero width and
  height, the capture canvas ends with the width and height of the video and with the
  left-right mirror image of the frame as its content, in both variants, and the preview is
  the encoding of that canvas.
\<close>

theorem captured_photo_mirrors_frame:
  assumes "videoRef w = Some v" and "wf_video v" and "0 < videoWidth v" and "0 < videoHeight v"
  shows
    "cwidth (captureCanvas (snd (capturePhoto snap pf (st, w)))) = videoWidth v \<and>
     cheight (captureCanvas (snd (capturePhoto snap pf (st, w)))) = videoHeight v \<and>
     bitmap (captureCanvas (snd (capturePhoto snap pf (st, w)))) = mirror (frame v) \<and>
     imagePreview (fst (capturePhoto snap pf (st, w)))
       = Some (toDataURL pf (captureCanvas (snd (capturePhoto snap pf (st, w))))) \<and>
     cwidth (captureCanvas (snd (capturePhoto_mui snap pf (st, w)))) = videoWidth v \<and>
     cheight (captureCanvas (snd (capturePhoto_mui snap pf (st, w)))) = videoHeight v \<and>
     bitmap (captureCanvas (snd (capturePhoto_mui snap pf (st, w)))) = mirror (frame v) \<and>
     imagePreview (fst (capturePhoto_mui snap pf (st, w)))
       = Some (toDataURL pf (captureCanvas (snd (capturePhoto_mui snap pf (st, w)))))"
proof -
  let ?c = "ctx_scale (- 1) 1 (set_height (videoHeight v) (set_width (videoWidth v) (captureCanvas w)))"
  note prep = capture_canvas_prepared [of "videoHeight v" "videoWidth v" "captureCanvas w"]
  have bm: "bitmap (drawImage v (- int (videoWidth v)) 0 (int (videoWidth v)) (int (videoHeight v)) ?c)
      = mirror (frame v)"
    using assms(2-4) prep by (intro drawImage_mirror) simp_all
  have or: "or_nat (videoWidth v) 1280 = videoWidth v" "or_nat (videoHeight v) 720 = videoHeight v"
    using assms(3,4) by (simp_all add: or_nat_def)
  show ?thesis
    using bm prep
    by (simp add: capturePhoto_canvas [OF assms(1)] capturePhoto_mui_canvas [OF assms(1)]
        or restore_after_save drawImage_size set_height_def set_width_def)
qed

theorem captured_photo_mirrors_frame_witness:
  "wf_video small_feed \<and> 0 < videoWidth small_feed \<and> 0 < videoHeight small_feed \<and>
   bitmap (captureCanvas (snd (capturePhoto initial_state (example_platform (PostOk []) small_feed)
       (initial_state, initial_world\<lparr>videoRef := Some small_feed\<rparr>))))
     = [[Some 3, Some 2, Some 1], [Some 6, Some 5, Some 4]] \<and>
   bitmap (captureCanvas (snd (capturePhoto_mui initial_state (example_platform (PostOk []) small_feed)
       (initial_state, initial_world\<lparr>videoRef := Some small_feed\<rparr>))))
     = [[Some 3, Some 2, Some 1], [Some 6, Some 5, Some 4]]"
proof -
  have wf: "wf_video small_feed" "0 < videoWidth small_feed" "0 < videoHeight small_feed"
    by (simp_all add: wf_video_def small_feed_def)
  have v: "videoRef (initial_world\<lparr>videoRef := Some small_feed\<rparr>) = Some small_feed"
    by simp
  from captured_photo_mirrors_frame [OF v wf, of initial_state
      "example_platform (PostOk []) small_feed" initial_state] wf
  show ?thesis
    by (simp add: mirror_def small_feed_def)
qed

text \<open>
  Claim C9 as stated holds of every capture, at the video's own width and height. In the
  second variant a capture right after the camera was started, before the element has a
  frame, sizes the canvas 1280 by 720 while the video reports 0 by 0.
\<close>

theorem captured_photo_counterexample:
  "videoRef (snd (run_mui (example_platform (PostOk []) blank_video) [ClickStart (Granted [0])]
       (initial_state, initial_world_mui)))
     = Some \<lparr>srcObject = Some [0], videoWidth = 0, videoHeight = 0, frame = []\<rparr> \<and>
   cwidth (captureCanvas (snd (run_mui (example_platform (PostOk []) blank_video)
       [ClickStart (Granted [0]), ClickCapture] (initial_state, initial_world_mui)))) = 1280 \<and>
   cheight (captureCanvas (snd (run_mui (example_platform (PostOk []) blank_video)
       [ClickStart (Granted [0]), ClickCapture] (initial_state, initial_world_mui)))) = 720"
proof -
  let ?pf = "example_platform (PostOk []) blank_video"
  obtain st w where sw: "run_mui ?pf [ClickStart (Granted [0])] (initial_state, initial_world_mui) = (st, w)"
    by (cases "run_mui ?pf [ClickStart (Granted [0])] (initial_state, initial_world_mui)")
  then have v: "videoRef w = Some \<lparr>srcObject = Some [0], videoWidth = 0, videoHeight = 0, frame = []\<rparr>"
    by (auto simp: run_mui_def startCamera_mui_def initial_world_mui_def example_platform_def
        blank_video_def)
  have "run_mui ?pf [ClickStart (Granted [0]), ClickCapture] (initial_state, initial_world_mui)
      = capturePhoto_mui st ?pf (st, w)"
    using sw by (simp add: run_mui_def)
  then show ?thesis
    using sw v
    by (simp add: capturePhoto_mui_canvas [OF v] restore_after_save or_nat_def
        set_height_def set_width_def)
qed

end
